theory Spec2Isabelle
  imports Main "HOL-Library.Word"
begin

section \<open>Errors\<close>

text \<open>
  An error reported by the container runtime's client library is opaque to the core: only
  its message is ever read (\<open>Error()\<close>, or the \<open>%s\<close> verb of \<open>fmt.Errorf\<close>).
\<close>

type_synonym client_error = string

text \<open>
  The values of Go's \<open>error\<close> interface that the core produces. The sentinels are package
  variables compared by identity (\<open>err == ErrUnexpected\<close>); their declarations for the
  container job are not among the sources, only their uses are. The client library cannot
  return them, so a client failure is always \<open>ClientError\<close>. The remaining constructors
  are the four \<open>fmt.Errorf\<close> calls of the container-run job, kept structured:
  \<^item> \<open>ErrorPullingImage image cause\<close>: \<open>"error pulling image %q: %s"\<close>;
  \<^item> \<open>ErrorCreatingExec cause\<close>: \<open>"error creating exec: %s"\<close>;
  \<^item> \<open>ErrorConnectingNetwork cause\<close>: \<open>"error connecting container to network: %s"\<close>;
  \<^item> \<open>ErrorNonZeroExit code\<close>: \<open>"error non-zero exit code: %d"\<close>.
\<close>

datatype error =
    ErrAlreadyStarted
  | ErrAlreadyStopped
  | ErrEmptyScheduler
  | ErrEmptySchedule
  | ErrLocalImageNotFound
  | ErrUnexpected
  | ErrMaxTimeRunning
  | ClientError client_error
  | CronError string
  | ErrorPullingImage string client_error
  | ErrorCreatingExec client_error
  | ErrorConnectingNetwork client_error
  | ErrorNonZeroExit int

section \<open>strconv.ParseBool\<close>

text \<open>
  Go's standard library: the twelve accepted spellings, and for anything else the value
  \<open>false\<close> together with a syntax error. The second component tells whether the error is
  non-nil.
\<close>

definition ParseBool :: "string \<Rightarrow> bool \<times> bool" where
  "ParseBool str =
     (if str \<in> set [''1'', ''t'', ''T'', ''true'', ''TRUE'', ''True''] then (True, False)
      else if str \<in> set [''0'', ''f'', ''F'', ''false'', ''FALSE'', ''False''] then (False, False)
      else (False, True))"

section \<open>Jobs\<close>

text \<open>A middleware is an opaque value here; the label tells two of them apart.\<close>

datatype middleware = Middleware string

text \<open>
  \<open>BareJob\<close> of \<open>core/job.go\<close>. The embedded \<open>middlewareContainer\<close> is the field
  \<open>middlewares\<close>; \<open>running\<close> is an \<open>int32\<close>.
\<close>

record BareJob =
  Schedule :: string
  Name :: string
  Command :: string
  middlewares :: "middleware list"
  running :: "32 word"

definition GetName :: "'a BareJob_scheme \<Rightarrow> string" where
  "GetName j = Name j"

definition GetSchedule :: "'a BareJob_scheme \<Rightarrow> string" where
  "GetSchedule j = Schedule j"

definition GetCommand :: "'a BareJob_scheme \<Rightarrow> string" where
  "GetCommand j = Command j"

text \<open>\<open>atomic.LoadInt32\<close>: the counter read as a signed 32-bit value.\<close>

definition Running :: "'a BareJob_scheme \<Rightarrow> int" where
  "Running j = sint (running j)"

text \<open>\<open>atomic.AddInt32(&j.running, 1)\<close> and \<open>atomic.AddInt32(&j.running, -1)\<close>: both wrap.\<close>

definition NotifyStart :: "'a BareJob_scheme \<Rightarrow> 'a BareJob_scheme" where
  "NotifyStart j = j\<lparr>running := running j + 1\<rparr>"

definition NotifyStop :: "'a BareJob_scheme \<Rightarrow> 'a BareJob_scheme" where
  "NotifyStop j = j\<lparr>running := running j + (- 1)\<rparr>"

section \<open>The container-run job\<close>

text \<open>\<open>RunJob\<close> embeds \<open>BareJob\<close>; the client is passed to every operation instead.\<close>

record RunJob = BareJob +
  User :: string
  TTY :: bool
  Delete :: string
  Pull :: string
  Image :: string
  Network :: string
  Container :: string
  Volume :: "string list"

subsection \<open>The container runtime\<close>

text \<open>The two fields of \<open>docker.State\<close> and of \<open>docker.Container\<close> that the job reads.\<close>

record docker_State =
  State_Running :: bool
  State_ExitCode :: int

record docker_Container =
  ID :: string
  State :: docker_State

text \<open>The fields of \<open>docker.CreateContainerOptions\<close> that \<open>buildContainer\<close> sets from the job.\<close>

record CreateContainerOptions =
  Config_Image :: string
  Config_AttachStdin :: bool
  Config_AttachStdout :: bool
  Config_AttachStderr :: bool
  Config_Tty :: bool
  Config_Cmd :: "string list"
  Config_User :: string
  HostConfig_Binds :: "string list"

text \<open>\<open>docker.LogsOptions\<close> without the two streams, which are the Execution's.\<close>

record LogsOptions =
  Logs_Container :: string
  Logs_Stdout :: bool
  Logs_Stderr :: bool
  Logs_Since :: int
  Logs_RawTerminal :: bool

text \<open>
  The runtime is an external collaborator with a state of its own, of type \<open>'w\<close>: every
  operation reads that state and returns its answer with the next state, so an answer may
  depend on everything that happened before. The record holds the operations the job
  consumes, together with the library functions it calls that are not the client's:
  the clock (\<open>time.Now().Unix()\<close>, and \<open>time.Sleep\<close>, during which the runtime's state
  may move on) and the tokenizer \<open>args.GetArgs\<close>.

  \<open>ListImages\<close> and \<open>PullImage\<close> take the image name: the job passes
  \<open>buildFindLocalImageOptions(j.Image)\<close> and \<open>buildPullOptions(j.Image)\<close>, two helpers that
  are not among the sources and depend on the name only. \<open>ListImages\<close> answers with the
  identifiers of the images found, \<open>FilteredListNetworks\<close> (filter: the name) with the
  identifiers of the networks found, and \<open>Logs\<close> with what it wrote to the output and to
  the error stream.
\<close>

record 'w docker_Client =
  ListImages :: "string \<Rightarrow> 'w \<Rightarrow> (client_error + string list) \<times> 'w"
  PullImage :: "string \<Rightarrow> 'w \<Rightarrow> client_error option \<times> 'w"
  CreateContainer :: "CreateContainerOptions \<Rightarrow> 'w \<Rightarrow> (client_error + docker_Container) \<times> 'w"
  FilteredListNetworks :: "string \<Rightarrow> 'w \<Rightarrow> (client_error + string list) \<times> 'w"
  ConnectNetwork :: "string \<Rightarrow> string \<Rightarrow> 'w \<Rightarrow> client_error option \<times> 'w"
  StartContainer :: "string \<Rightarrow> 'w \<Rightarrow> client_error option \<times> 'w"
  InspectContainerWithOptions :: "string \<Rightarrow> 'w \<Rightarrow> (client_error + docker_Container) \<times> 'w"
  Logs :: "LogsOptions \<Rightarrow> 'w \<Rightarrow> (client_error option \<times> string \<times> string) \<times> 'w"
  RemoveContainer :: "string \<Rightarrow> 'w \<Rightarrow> client_error option \<times> 'w"
  time_Now :: "'w \<Rightarrow> int"
  time_Sleep :: "int \<Rightarrow> 'w \<Rightarrow> 'w"
  args_GetArgs :: "string \<Rightarrow> string list"

text \<open>The operations of the client, as the job invokes them.\<close>

datatype call =
    CallListImages string
  | CallPullImage string
  | CallCreateContainer CreateContainerOptions
  | CallFilteredListNetworks string
  | CallConnectNetwork string string
  | CallStartContainer string
  | CallInspectContainer string
  | CallLogs LogsOptions
  | CallRemoveContainer string

text \<open>
  What \<open>ctx.Log\<close> and \<open>ctx.Warn\<close> hand to the logger. Both warnings of the job are a fixed
  text followed by \<open>err.Error()\<close>: \<open>Warn text err\<close>.
\<close>

datatype ctx_message = Log string | Warn string error

text \<open>
  What a run of the job can change: the runtime's state, the record of the client
  operations invoked so far (oldest first), the messages logged through the Context, and
  the two output streams of the Context's Execution.
\<close>

record 'w run_state =
  world :: 'w
  calls :: "call list"
  messages :: "ctx_message list"
  OutputStream :: string
  ErrorStream :: string

definition invoke :: "call \<Rightarrow> 'w \<Rightarrow> 'w run_state \<Rightarrow> 'w run_state" where
  "invoke c w s = s\<lparr>world := w, calls := calls s @ [c]\<rparr>"

definition ctx_Log :: "string \<Rightarrow> 'w run_state \<Rightarrow> 'w run_state" where
  "ctx_Log m s = s\<lparr>messages := messages s @ [Log m]\<rparr>"

definition ctx_Warn :: "string \<Rightarrow> error \<Rightarrow> 'w run_state \<Rightarrow> 'w run_state" where
  "ctx_Warn m err s = s\<lparr>messages := messages s @ [Warn m err]\<rparr>"

subsection \<open>Image resolution\<close>

definition searchLocalImage ::
  "'w docker_Client \<Rightarrow> 'a RunJob_scheme \<Rightarrow> 'w run_state \<Rightarrow> error option \<times> 'w run_state" where
  "searchLocalImage cl j s =
     (case ListImages cl (Image j) (world s) of (r, w) \<Rightarrow>
        (case r of
           Inl err \<Rightarrow> (Some (ClientError err), invoke (CallListImages (Image j)) w s)
         | Inr imgs \<Rightarrow>
             (if length imgs \<noteq> 1 then Some ErrLocalImageNotFound else None,
              invoke (CallListImages (Image j)) w s)))"

definition pullImage ::
  "'w docker_Client \<Rightarrow> 'a RunJob_scheme \<Rightarrow> 'w run_state \<Rightarrow> error option \<times> 'w run_state" where
  "pullImage cl j s =
     (case PullImage cl (Image j) (world s) of (r, w) \<Rightarrow>
        (case r of
           Some err \<Rightarrow> (Some (ErrorPullingImage (Image j) err), invoke (CallPullImage (Image j)) w s)
         | None \<Rightarrow> (None, invoke (CallPullImage (Image j)) w s)))"

text \<open>
  The function literal that \<open>Run\<close> calls at once when an image is named and no container
  is: \<open>pull\<close> is the parsed flag. The first branch below is the first \<open>if pull\<close> with a
  successful pull; \<open>pullError\<close> stays nil when \<open>pull\<close> is false.
\<close>

definition resolveImage ::
  "'w docker_Client \<Rightarrow> 'a RunJob_scheme \<Rightarrow> bool \<Rightarrow> 'w run_state \<Rightarrow> error option \<times> 'w run_state" where
  "resolveImage cl j pull s0 =
     (case (if pull then pullImage cl j s0 else (None, s0)) of (pullError, s1) \<Rightarrow>
        if pull \<and> pullError = None then (None, ctx_Log (''Pulled image '' @ Image j) s1)
        else
          (case searchLocalImage cl j s1 of (searchErr, s2) \<Rightarrow>
             if searchErr = None then (None, ctx_Log (''Found locally image '' @ Image j) s2)
             else
               (case (if \<not> pull \<and> searchErr = Some ErrLocalImageNotFound
                      then pullImage cl j s2 else (pullError, s2)) of (pullError', s3) \<Rightarrow>
                  if \<not> pull \<and> searchErr = Some ErrLocalImageNotFound \<and> pullError' = None
                  then (None, ctx_Log (''Pulled image '' @ Image j) s3)
                  else if pullError' \<noteq> None then (pullError', s3)
                  else if searchErr \<noteq> None then (searchErr, s3)
                  else (None, s3))))"

subsection \<open>Building, finding and starting the container\<close>

definition createOptions :: "'w docker_Client \<Rightarrow> 'a RunJob_scheme \<Rightarrow> CreateContainerOptions" where
  "createOptions cl j =
     \<lparr>Config_Image = Image j, Config_AttachStdin = False, Config_AttachStdout = True,
      Config_AttachStderr = True, Config_Tty = TTY j, Config_Cmd = args_GetArgs cl (Command j),
      Config_User = User j, HostConfig_Binds = Volume j\<rparr>"

text \<open>
  The loop over the networks found: the first \<open>ConnectNetwork\<close> that fails ends it, and
  \<open>buildContainer\<close> with it.
\<close>

fun connectNetworks ::
  "'w docker_Client \<Rightarrow> string \<Rightarrow> string list \<Rightarrow> 'w run_state \<Rightarrow> error option \<times> 'w run_state" where
  "connectNetworks cl containerID [] s = (None, s)"
| "connectNetworks cl containerID (network # networks) s =
     (case ConnectNetwork cl network containerID (world s) of (r, w) \<Rightarrow>
        (case r of
           Some err \<Rightarrow>
             (Some (ErrorConnectingNetwork err), invoke (CallConnectNetwork network containerID) w s)
         | None \<Rightarrow>
             connectNetworks cl containerID networks
               (invoke (CallConnectNetwork network containerID) w s)))"

text \<open>
  \<open>buildContainer\<close> returns a pair in Go, the container and the error: \<open>Inr c\<close> is the
  container with a nil error. Beside a non-nil error Go returns the container too, which
  \<open>Run\<close>, the only caller, never reads.
\<close>

definition buildContainer ::
  "'w docker_Client \<Rightarrow> 'a RunJob_scheme \<Rightarrow> 'w run_state \<Rightarrow> (error + docker_Container) \<times> 'w run_state" where
  "buildContainer cl j s =
     (case CreateContainer cl (createOptions cl j) (world s) of (r, w) \<Rightarrow>
        (case r of
           Inl err \<Rightarrow>
             (Inl (ErrorCreatingExec err), invoke (CallCreateContainer (createOptions cl j)) w s)
         | Inr c \<Rightarrow>
             (let s1 = invoke (CallCreateContainer (createOptions cl j)) w s in
              if Network j \<noteq> [] then
                (case FilteredListNetworks cl (Network j) (world s1) of (r', w') \<Rightarrow>
                   (case r' of
                      Inl err \<Rightarrow> (Inr c, invoke (CallFilteredListNetworks (Network j)) w' s1)
                    | Inr networks \<Rightarrow>
                        (case connectNetworks cl (ID c) networks
                                (invoke (CallFilteredListNetworks (Network j)) w' s1) of
                           (Some err, s3) \<Rightarrow> (Inl err, s3)
                         | (None, s3) \<Rightarrow> (Inr c, s3))))
              else (Inr c, s1))))"

definition startContainer ::
  "'w docker_Client \<Rightarrow> docker_Container \<Rightarrow> 'w run_state \<Rightarrow> error option \<times> 'w run_state" where
  "startContainer cl c s =
     (case StartContainer cl (ID c) (world s) of (r, w) \<Rightarrow>
        (map_option ClientError r, invoke (CallStartContainer (ID c)) w s))"

definition getContainer ::
  "'w docker_Client \<Rightarrow> string \<Rightarrow> 'w run_state \<Rightarrow> (error + docker_Container) \<times> 'w run_state" where
  "getContainer cl ident s =
     (case InspectContainerWithOptions cl ident (world s) of (r, w) \<Rightarrow>
        (case r of
           Inl err \<Rightarrow> (Inl (ClientError err), invoke (CallInspectContainer ident) w s)
         | Inr container \<Rightarrow> (Inr container, invoke (CallInspectContainer ident) w s)))"

subsection \<open>Watching the container\<close>

text \<open>
  \<open>time.Duration\<close> counts nanoseconds in an \<open>int64\<close>. The loop leaves as soon as \<open>r\<close> is
  above \<open>maxProcessDuration\<close>, so \<open>r\<close> stays below \<open>2 ^ 47\<close> and never wraps: it is an
  \<open>int\<close> here.
\<close>

definition watchDuration :: int where
  "watchDuration = 1000000 * 100"

definition maxProcessDuration :: int where
  "maxProcessDuration = 3600000000000 * 24"

text \<open>
  The \<open>for\<close> loop of \<open>watchContainer\<close>, entered with the time \<open>r\<close> accumulated so far. It
  ends with an error (\<open>return\<close>) or with the state captured at the \<open>break\<close>.
\<close>

function watch_loop ::
  "'w docker_Client \<Rightarrow> string \<Rightarrow> int \<Rightarrow> 'w run_state \<Rightarrow> (error + docker_State) \<times> 'w run_state" where
  "watch_loop cl containerID r s =
     (if r + watchDuration > maxProcessDuration
      then (Inl ErrMaxTimeRunning, s\<lparr>world := time_Sleep cl watchDuration (world s)\<rparr>)
      else
        (case InspectContainerWithOptions cl containerID (time_Sleep cl watchDuration (world s)) of
           (res, w) \<Rightarrow>
             (case res of
                Inl err \<Rightarrow> (Inl (ClientError err), invoke (CallInspectContainer containerID) w s)
              | Inr c \<Rightarrow>
                  if \<not> State_Running (State c)
                  then (Inr (State c), invoke (CallInspectContainer containerID) w s)
                  else watch_loop cl containerID (r + watchDuration)
                         (invoke (CallInspectContainer containerID) w s))))"
  by pat_completeness auto
termination
  by (relation "measure (\<lambda>(cl, containerID, r, s). nat (maxProcessDuration - r))")
     (auto simp: watchDuration_def maxProcessDuration_def)

declare watch_loop.simps [simp del]

text \<open>The \<open>switch\<close> on the exit code that ends \<open>watchContainer\<close>.\<close>

definition exitCodeError :: "int \<Rightarrow> error option" where
  "exitCodeError code =
     (if code = 0 then None
      else if code = - 1 then Some ErrUnexpected
      else Some (ErrorNonZeroExit code))"

definition watchContainer ::
  "'w docker_Client \<Rightarrow> string \<Rightarrow> 'w run_state \<Rightarrow> error option \<times> 'w run_state" where
  "watchContainer cl containerID s =
     (case watch_loop cl containerID 0 s of
        (Inl err, s') \<Rightarrow> (Some err, s')
      | (Inr st, s') \<Rightarrow> (exitCodeError (State_ExitCode st), s'))"

subsection \<open>Logs, deletion and the driver\<close>

definition deleteContainer ::
  "'w docker_Client \<Rightarrow> 'a RunJob_scheme \<Rightarrow> string \<Rightarrow> 'w run_state \<Rightarrow> error option \<times> 'w run_state" where
  "deleteContainer cl j containerID s =
     (if \<not> fst (ParseBool (Delete j)) then (None, s)
      else
        (case RemoveContainer cl containerID (world s) of (r, w) \<Rightarrow>
           (map_option ClientError r, invoke (CallRemoveContainer containerID) w s)))"

definition logsOptions :: "'a RunJob_scheme \<Rightarrow> docker_Container \<Rightarrow> int \<Rightarrow> LogsOptions" where
  "logsOptions j container startTime =
     \<lparr>Logs_Container = ID container, Logs_Stdout = True, Logs_Stderr = True,
      Logs_Since = startTime, Logs_RawTerminal = TTY j\<rparr>"

text \<open>The call of \<open>j.Client.Logs\<close> in \<open>Run\<close>, with the warning on failure.\<close>

definition fetchLogs ::
  "'w docker_Client \<Rightarrow> 'a RunJob_scheme \<Rightarrow> docker_Container \<Rightarrow> int \<Rightarrow> 'w run_state \<Rightarrow> 'w run_state" where
  "fetchLogs cl j container startTime s =
     (case Logs cl (logsOptions j container startTime) (world s) of ((logsErr, out, err), w) \<Rightarrow>
        (let s' = (invoke (CallLogs (logsOptions j container startTime)) w s)
                    \<lparr>OutputStream := OutputStream s @ out, ErrorStream := ErrorStream s @ err\<rparr>
         in case logsErr of
              Some e \<Rightarrow> ctx_Warn ''failed to fetch container logs: '' (ClientError e) s'
            | None \<Rightarrow> s'))"

text \<open>
  The deferred function of \<open>Run\<close>, registered only when no container was named. It runs
  once the returned value is fixed.
\<close>

definition deferredDelete ::
  "'w docker_Client \<Rightarrow> 'a RunJob_scheme \<Rightarrow> docker_Container \<Rightarrow> 'w run_state \<Rightarrow> 'w run_state" where
  "deferredDelete cl j container s =
     (if Container j = [] then
        (case deleteContainer cl j (ID container) s of
           (Some delErr, s') \<Rightarrow> ctx_Warn ''failed to delete container: '' delErr s'
         | (None, s') \<Rightarrow> s')
      else s)"

text \<open>
  The first \<open>if\<close> of \<open>Run\<close>: the container, or the error that \<open>Run\<close> returns at once.
\<close>

definition acquireContainer ::
  "'w docker_Client \<Rightarrow> 'a RunJob_scheme \<Rightarrow> 'w run_state \<Rightarrow> (error + docker_Container) \<times> 'w run_state" where
  "acquireContainer cl j s =
     (if Image j \<noteq> [] \<and> Container j = [] then
        (case resolveImage cl j (fst (ParseBool (Pull j))) s of
           (Some err, s1) \<Rightarrow> (Inl err, s1)
         | (None, s1) \<Rightarrow>
             (case buildContainer cl j s1 of
                (Inl err, s2) \<Rightarrow> (Inl err, s2)
              | (Inr container, s2) \<Rightarrow> (Inr container, s2)))
      else getContainer cl (Container j) s)"

definition Run ::
  "'w docker_Client \<Rightarrow> 'a RunJob_scheme \<Rightarrow> 'w run_state \<Rightarrow> error option \<times> 'w run_state" where
  "Run cl j s =
     (case acquireContainer cl j s of
        (Inl err, s1) \<Rightarrow> (Some err, s1)
      | (Inr container, s1) \<Rightarrow>
          (let startTime = time_Now cl (world s1) in
           case startContainer cl container s1 of
             (Some err, s2) \<Rightarrow> (Some err, s2)
           | (None, s2) \<Rightarrow>
               (case watchContainer cl (ID container) s2 of (err, s3) \<Rightarrow>
                  if err = Some ErrUnexpected then (err, s3)
                  else (err, deferredDelete cl j container (fetchLogs cl j container startTime s3)))))"

section \<open>The scheduler\<close>

text \<open>
  \<open>middlewareContainer\<close>, embedded in \<open>BareJob\<close> and in \<open>Scheduler\<close>, is not among the
  sources, nor are its methods \<open>Use\<close> and \<open>Middlewares\<close>. The spec gives a Job "an ordered
  list of registered middlewares".
\<close>

type_synonym middlewareContainer = "middleware list"

text \<open>
  Modelled from the spec: \<open>middlewareContainer.Use\<close>, which is not among the sources. The
  global middlewares "are appended to each Job's own middleware list", where they "occupy
  chain positions after the job-specific middlewares".
\<close>

definition Use :: "middleware list \<Rightarrow> middlewareContainer \<Rightarrow> middlewareContainer" where
  "Use ms c = c @ ms"

text \<open>
  Modelled from the spec: \<open>middlewareContainer.Middlewares\<close>, which is not among the
  sources: the "ordered list of registered middlewares", in order.
\<close>

definition Middlewares :: "middlewareContainer \<Rightarrow> middleware list" where
  "Middlewares c = c"

text \<open>\<open>j.Use\<close> on a job: the method of the embedded container.\<close>

definition job_Use :: "middleware list \<Rightarrow> BareJob \<Rightarrow> BareJob" where
  "job_Use ms j = j\<lparr>middlewares := Use ms (middlewares j)\<rparr>"

text \<open>
  A \<open>Job\<close> value is a pointer to a job: the registry holds references, and the jobs live
  in a store, so that \<open>j.Use\<close> in \<open>mergeMiddlewares\<close> changes the one job that every copy
  of the reference names.
\<close>

type_synonym job_ref = nat

text \<open>
  The cron trigger (\<open>robfig/cron\<close>) is an external collaborator: it keeps the entries
  added, each a schedule with the \<open>jobWrapper\<close> of a job, and whether it was started. Its
  parser of schedule expressions is a parameter of \<open>AddJob\<close>: \<open>Some msg\<close> is a refusal.
\<close>

record cron_Cron =
  entries :: "(string \<times> job_ref) list"
  cron_running :: bool

datatype log_entry =
    Noticef_New_job_registered string string string
  | Debugf_Starting_scheduler nat

text \<open>
  \<open>Logger\<close> is what the logger has received. \<open>wg\<close> is the counter of the wait group: the
  runs in flight. \<open>store\<close> is the memory behind the references of \<open>Jobs\<close>.
\<close>

record Scheduler =
  Jobs :: "job_ref list"
  Logger :: "log_entry list"
  global_middlewares :: middlewareContainer
  cron :: cron_Cron
  wg :: nat
  isRunning :: bool
  store :: "job_ref \<Rightarrow> BareJob"

definition NewScheduler :: "(job_ref \<Rightarrow> BareJob) \<Rightarrow> Scheduler" where
  "NewScheduler mem =
     \<lparr>Jobs = [], Logger = [], global_middlewares = [],
      cron = \<lparr>entries = [], cron_running = False\<rparr>, wg = 0, isRunning = False, store = mem\<rparr>"

definition AddJob ::
  "(string \<Rightarrow> string option) \<Rightarrow> job_ref \<Rightarrow> Scheduler \<Rightarrow> error option \<times> Scheduler" where
  "AddJob parse j s =
     (let s1 = s\<lparr>Logger := Logger s @
                  [Noticef_New_job_registered (GetName (store s j)) (GetCommand (store s j))
                     (GetSchedule (store s j))]\<rparr>
      in if GetSchedule (store s j) = [] then (Some ErrEmptySchedule, s1)
         else
           (case parse (GetSchedule (store s j)) of
              Some err \<Rightarrow> (Some (CronError err), s1)
            | None \<Rightarrow>
                (None, s1\<lparr>cron := (cron s1)\<lparr>entries := entries (cron s1) @ [(GetSchedule (store s j), j)]\<rparr>,
                          Jobs := Jobs s1 @ [j]\<rparr>)))"

text \<open>The loop of \<open>mergeMiddlewares\<close> over the registry, on the store.\<close>

fun mergeInto :: "middleware list \<Rightarrow> job_ref list \<Rightarrow> (job_ref \<Rightarrow> BareJob) \<Rightarrow> (job_ref \<Rightarrow> BareJob)" where
  "mergeInto ms [] mem = mem"
| "mergeInto ms (j # js) mem = mergeInto ms js (mem(j := job_Use ms (mem j)))"

definition mergeMiddlewares :: "Scheduler \<Rightarrow> Scheduler" where
  "mergeMiddlewares s = s\<lparr>store := mergeInto (Middlewares (global_middlewares s)) (Jobs s) (store s)\<rparr>"

definition Start :: "Scheduler \<Rightarrow> error option \<times> Scheduler" where
  "Start s =
     (if isRunning s then (Some ErrAlreadyStarted, s)
      else if length (Jobs s) = 0 then (Some ErrEmptyScheduler, s)
      else
        (let s1 = s\<lparr>Logger := Logger s @ [Debugf_Starting_scheduler (length (Jobs s))]\<rparr>;
             s2 = mergeMiddlewares s1
         in (None, s2\<lparr>isRunning := True, cron := (cron s2)\<lparr>cron_running := True\<rparr>\<rparr>)))"

text \<open>
  \<open>s.wg.Wait()\<close> returns once no run is in flight. Nothing in this sequential model ends
  a run while \<open>Stop\<close> waits, so with a run in flight \<open>Stop\<close> does not return: \<open>None\<close>.
\<close>

definition Stop :: "Scheduler \<Rightarrow> (error option \<times> Scheduler) option" where
  "Stop s =
     (if \<not> isRunning s then Some (Some ErrAlreadyStopped, s)
      else if wg s \<noteq> 0 then None
      else Some (None, s\<lparr>cron := (cron s)\<lparr>cron_running := False\<rparr>, isRunning := False\<rparr>))"

definition IsRunning :: "Scheduler \<Rightarrow> bool" where
  "IsRunning s = isRunning s"

subsection \<open>Sequences of operations\<close>




section \<open>A run of a job\<close>

text \<open>
  Modelled from the spec: \<open>Context.Start\<close>, which \<open>jobWrapper.start\<close> calls, is not
  among the sources. The spec's invariant for a Job is that its running counter is
  "incremented exactly once per run entry": \<open>Start\<close> notifies the Job of the start. Its
  bookkeeping on the Execution does not touch the Job and is left out.
\<close>

definition Context_Start :: "'a BareJob_scheme \<Rightarrow> 'a BareJob_scheme" where
  "Context_Start j = NotifyStart j"

text \<open>
  Modelled from the spec: \<open>Context.Stop\<close>, which \<open>jobWrapper.stop\<close> calls, is not among
  the sources. The counter is "decremented exactly once per run exit regardless of
  outcome": \<open>Stop\<close> notifies the Job of the stop, whatever the error. Its bookkeeping on
  the Execution is left out as well.
\<close>

definition Context_Stop :: "error option \<Rightarrow> 'a BareJob_scheme \<Rightarrow> 'a BareJob_scheme" where
  "Context_Stop err j = NotifyStop j"

text \<open>
  \<open>jobWrapper.Run\<close>, on the Job: \<open>w.start(ctx)\<close>, \<open>err := ctx.Next()\<close>, \<open>w.stop(ctx, err)\<close>.
  \<open>ctx.Next()\<close> drives the middleware chain and the job's body; \<open>chain\<close> is its outcome
  (the error, and whether the run was skipped) for the Job as it finds it. The counter is
  an unexported field that only \<open>NotifyStart\<close> and \<open>NotifyStop\<close> write.
\<close>

definition jobWrapper_Run ::
  "('a BareJob_scheme \<Rightarrow> error option \<times> bool) \<Rightarrow> 'a BareJob_scheme \<Rightarrow> 'a BareJob_scheme" where
  "jobWrapper_Run chain j =
     (let j1 = Context_Start j;
          err = fst (chain j1)
      in Context_Stop err j1)"

text \<open>A sequence of notifications received by one Job, in order.\<close>

datatype notification = Started | Stopped

fun notify :: "notification \<Rightarrow> 'a BareJob_scheme \<Rightarrow> 'a BareJob_scheme" where
  "notify Started j = NotifyStart j"
| "notify Stopped j = NotifyStop j"

definition notifyAll :: "notification list \<Rightarrow> 'a BareJob_scheme \<Rightarrow> 'a BareJob_scheme" where
  "notifyAll ns j = fold notify ns j"

text \<open>
  Every \<open>Stopped\<close> of the sequence is paired with a \<open>Started\<close> before it, \<open>pending\<close> being
  the number of starts not yet paired.
\<close>

fun paired :: "nat \<Rightarrow> notification list \<Rightarrow> bool" where
  "paired pending [] = True"
| "paired pending (Started # ns) = paired (Suc pending) ns"
| "paired pending (Stopped # ns) = (0 < pending \<and> paired (pending - 1) ns)"

section \<open>Observations of a container\<close>

text \<open>
  \<open>polledRunning cl containerID n s\<close> describes the runtime, not the job: starting in
  \<open>s\<close>, each of the next \<open>n\<close> rounds of the watch (a sleep of \<open>watchDuration\<close>, then an
  inspection) finds the container running; the result is the state after these rounds.
\<close>

fun polledRunning ::
  "'w docker_Client \<Rightarrow> string \<Rightarrow> nat \<Rightarrow> 'w run_state \<Rightarrow> 'w run_state option" where
  "polledRunning cl containerID 0 s = Some s"
| "polledRunning cl containerID (Suc n) s =
     (case InspectContainerWithOptions cl containerID (time_Sleep cl watchDuration (world s)) of
        (Inl err, w) \<Rightarrow> None
      | (Inr c, w) \<Rightarrow>
          if State_Running (State c)
          then polledRunning cl containerID n (invoke (CallInspectContainer containerID) w s)
          else None)"

section \<open>A scripted runtime\<close>

text \<open>
  A runtime whose state is the script of its answers, for concrete runs. The container
  reports running for the next \<open>running_polls\<close> inspections and then stopped with
  \<open>exit_code\<close>; sleeping advances the clock.
\<close>

record script =
  pull_answer :: "client_error option"
  images_answer :: "client_error + string list"
  create_answer :: "client_error + docker_Container"
  networks_answer :: "client_error + string list"
  connect_answer :: "string \<Rightarrow> client_error option"
  start_answer :: "client_error option"
  running_polls :: nat
  exit_code :: int
  logs_answer :: "client_error option \<times> string \<times> string"
  remove_answer :: "client_error option"
  clock :: int

definition scripted :: "script docker_Client" where
  "scripted =
     \<lparr>ListImages = (\<lambda>image w. (images_answer w, w)),
      PullImage = (\<lambda>image w. (pull_answer w, w)),
      CreateContainer = (\<lambda>opts w. (create_answer w, w)),
      FilteredListNetworks = (\<lambda>name w. (networks_answer w, w)),
      ConnectNetwork = (\<lambda>network containerID w. (connect_answer w network, w)),
      StartContainer = (\<lambda>containerID w. (start_answer w, w)),
      InspectContainerWithOptions =
        (\<lambda>containerID w.
           (Inr \<lparr>ID = containerID,
                 State = \<lparr>State_Running = (0 < running_polls w),
                          State_ExitCode = (if 0 < running_polls w then 0 else exit_code w)\<rparr>\<rparr>,
            w\<lparr>running_polls := running_polls w - 1\<rparr>)),
      Logs = (\<lambda>opts w. (logs_answer w, w)),
      RemoveContainer = (\<lambda>containerID w. (remove_answer w, w)),
      time_Now = (\<lambda>w. clock w div 1000000000),
      time_Sleep = (\<lambda>d w. w\<lparr>clock := clock w + d\<rparr>),
      args_GetArgs = (\<lambda>command. [command])\<rparr>"

definition script0 :: script where
  "script0 =
     \<lparr>pull_answer = None, images_answer = Inr [''sha256:1''],
      create_answer = Inr \<lparr>ID = ''c1'', State = \<lparr>State_Running = False, State_ExitCode = 0\<rparr>\<rparr>,
      networks_answer = Inr [''n1''], connect_answer = (\<lambda>network. None), start_answer = None,
      running_polls = 2, exit_code = 0, logs_answer = (None, ''out'', []),
      remove_answer = None, clock = 0\<rparr>"

definition state0 :: "script \<Rightarrow> script run_state" where
  "state0 w = \<lparr>world = w, calls = [], messages = [], OutputStream = [], ErrorStream = []\<rparr>"

definition job0 :: RunJob where
  "job0 =
     \<lparr>Schedule = ''@hourly'', Name = ''job0'', Command = ''echo hi'', middlewares = [], running = 0,
      User = ''root'', TTY = False, Delete = ''true'', Pull = ''true'', Image = ''busybox'',
      Network = [], Container = [], Volume = []\<rparr>"

text \<open>A store of jobs and a scheduler with one global middleware, for concrete runs.\<close>

definition store0 :: "job_ref \<Rightarrow> BareJob" where
  "store0 r =
     \<lparr>Schedule = ''@daily'', Name = ''job'', Command = ''true'', middlewares = [], running = 0\<rparr>"

definition scheduler0 :: Scheduler where
  "scheduler0 = (NewScheduler store0)\<lparr>global_middlewares := Use [Middleware ''save''] []\<rparr>"

definition accept :: "string \<Rightarrow> string option" where
  "accept schedule = None"





section \<open>Image resolution: proofs\<close>

lemma calls_ctx_Log: "calls (ctx_Log m s) = calls s"
  by (simp add: ctx_Log_def)

lemma calls_pullImage: "calls (snd (pullImage cl j s)) = calls s @ [CallPullImage (Image j)]"
  by (simp add: pullImage_def invoke_def split: prod.splits option.splits)

lemma calls_searchLocalImage:
  "calls (snd (searchLocalImage cl j s)) = calls s @ [CallListImages (Image j)]"
  by (simp add: searchLocalImage_def invoke_def split: prod.splits sum.splits)

lemma resolve_pull_ok:
  "fst (pullImage cl j s) = None \<Longrightarrow>
   resolveImage cl j True s = (None, ctx_Log (''Pulled image '' @ Image j) (snd (pullImage cl j s)))"
  by (cases "pullImage cl j s") (simp add: resolveImage_def)

lemma resolve_search_ok:
  "fst (searchLocalImage cl j s) = None \<Longrightarrow>
   resolveImage cl j False s =
     (None, ctx_Log (''Found locally image '' @ Image j) (snd (searchLocalImage cl j s)))"
  by (cases "searchLocalImage cl j s") (simp add: resolveImage_def)

lemma resolve_fallback:
  "fst (searchLocalImage cl j s) = Some ErrLocalImageNotFound \<Longrightarrow>
   fst (resolveImage cl j False s) = fst (pullImage cl j (snd (searchLocalImage cl j s))) \<and>
   calls (snd (resolveImage cl j False s)) =
     calls (snd (pullImage cl j (snd (searchLocalImage cl j s))))"
  by (cases "searchLocalImage cl j s"; cases "pullImage cl j (snd (searchLocalImage cl j s))")
     (auto simp: resolveImage_def calls_ctx_Log)

lemma resolve_both_fail:
  "fst (pullImage cl j s) = Some pullError \<Longrightarrow>
   fst (searchLocalImage cl j (snd (pullImage cl j s))) = Some searchErr \<Longrightarrow>
   resolveImage cl j True s = (Some pullError, snd (searchLocalImage cl j (snd (pullImage cl j s))))"
  by (cases "pullImage cl j s"; cases "searchLocalImage cl j (snd (pullImage cl j s))")
     (simp add: resolveImage_def)

lemma Run_resolve_fails:
  "Image j \<noteq> [] \<Longrightarrow> Container j = [] \<Longrightarrow>
   fst (resolveImage cl j (fst (ParseBool (Pull j))) s) = Some err \<Longrightarrow>
   Run cl j s = (Some err, snd (resolveImage cl j (fst (ParseBool (Pull j))) s))"
  by (cases "resolveImage cl j (fst (ParseBool (Pull j))) s")
     (simp add: Run_def acquireContainer_def)

text \<open>
  Claim C1. Image resolution in the container-run job. With the pull flag true and a
  successful pull, the pull is the only operation invoked: the local search is never
  attempted. With the pull flag false and a successful local search (exactly one image),
  the search is the only operation invoked: no pull is attempted. With the pull flag
  false and a search that fails with \<open>ErrLocalImageNotFound\<close>, a pull follows the search
  and its outcome is the outcome of the resolution. When the pull and the search have
  both failed, the pull error is returned. \<open>Run\<close> returns the error of a failed
  resolution, and enters the resolution only when an image is named and no container
  is: otherwise it only looks the container up.
\<close>

theorem image_resolution:
  "(fst (pullImage cl j sa) = None \<longrightarrow>
      resolveImage cl j True sa =
        (None, ctx_Log (''Pulled image '' @ Image j) (snd (pullImage cl j sa))) \<and>
      calls (snd (resolveImage cl j True sa)) = calls sa @ [CallPullImage (Image j)]) \<and>
   (fst (searchLocalImage cl j sb) = None \<longrightarrow>
      resolveImage cl j False sb =
        (None, ctx_Log (''Found locally image '' @ Image j) (snd (searchLocalImage cl j sb))) \<and>
      calls (snd (resolveImage cl j False sb)) = calls sb @ [CallListImages (Image j)]) \<and>
   (fst (searchLocalImage cl j sc) = Some ErrLocalImageNotFound \<longrightarrow>
      fst (resolveImage cl j False sc) = fst (pullImage cl j (snd (searchLocalImage cl j sc))) \<and>
      calls (snd (resolveImage cl j False sc)) =
        calls sc @ [CallListImages (Image j), CallPullImage (Image j)]) \<and>
   (fst (pullImage cl j sd) = Some pullError \<and>
    fst (searchLocalImage cl j (snd (pullImage cl j sd))) = Some searchErr \<longrightarrow>
      fst (resolveImage cl j True sd) = Some pullError) \<and>
   (Image j \<noteq> [] \<and> Container j = [] \<and>
    fst (resolveImage cl j (fst (ParseBool (Pull j))) se) = Some err \<longrightarrow>
      fst (Run cl j se) = Some err) \<and>
   (\<not> (Image j \<noteq> [] \<and> Container j = []) \<longrightarrow>
      acquireContainer cl j sf = getContainer cl (Container j) sf)"
proof (intro conjI impI)
  assume "fst (pullImage cl j sa) = None"
  then show "resolveImage cl j True sa =
        (None, ctx_Log (''Pulled image '' @ Image j) (snd (pullImage cl j sa)))"
    by (rule resolve_pull_ok)
  then show "calls (snd (resolveImage cl j True sa)) = calls sa @ [CallPullImage (Image j)]"
    by (simp add: calls_ctx_Log calls_pullImage)
next
  assume "fst (searchLocalImage cl j sb) = None"
  then show "resolveImage cl j False sb =
        (None, ctx_Log (''Found locally image '' @ Image j) (snd (searchLocalImage cl j sb)))"
    by (rule resolve_search_ok)
  then show "calls (snd (resolveImage cl j False sb)) = calls sb @ [CallListImages (Image j)]"
    by (simp add: calls_ctx_Log calls_searchLocalImage)
next
  assume h: "fst (searchLocalImage cl j sc) = Some ErrLocalImageNotFound"
  from resolve_fallback [OF h]
  show "fst (resolveImage cl j False sc) = fst (pullImage cl j (snd (searchLocalImage cl j sc)))"
    by simp
  from resolve_fallback [OF h]
  show "calls (snd (resolveImage cl j False sc)) =
        calls sc @ [CallListImages (Image j), CallPullImage (Image j)]"
    by (simp add: calls_pullImage calls_searchLocalImage)
next
  assume "fst (pullImage cl j sd) = Some pullError \<and>
    fst (searchLocalImage cl j (snd (pullImage cl j sd))) = Some searchErr"
  then show "fst (resolveImage cl j True sd) = Some pullError"
    by (simp add: resolve_both_fail)
next
  assume "Image j \<noteq> [] \<and> Container j = [] \<and>
    fst (resolveImage cl j (fst (ParseBool (Pull j))) se) = Some err"
  then show "fst (Run cl j se) = Some err"
    by (simp add: Run_resolve_fails)
next
  assume "\<not> (Image j \<noteq> [] \<and> Container j = [])"
  then show "acquireContainer cl j sf = getContainer cl (Container j) sf"
    by (auto simp: acquireContainer_def)
qed

text \<open>The unfolding of the scripted runtime and of the concrete job.\<close>

lemmas fixture_defs = scripted_def script0_def state0_def job0_def

theorem image_resolution_witness:
  "fst (resolveImage scripted job0 True (state0 script0)) = None \<and>
   calls (snd (resolveImage scripted job0 True (state0 script0))) = [CallPullImage ''busybox''] \<and>
   fst (resolveImage scripted job0 False (state0 script0)) = None \<and>
   calls (snd (resolveImage scripted job0 False (state0 script0))) = [CallListImages ''busybox''] \<and>
   fst (resolveImage scripted job0 False
          (state0 (script0\<lparr>images_answer := Inr [], pull_answer := Some ''no route''\<rparr>))) =
     Some (ErrorPullingImage ''busybox'' ''no route'') \<and>
   calls (snd (resolveImage scripted job0 False
          (state0 (script0\<lparr>images_answer := Inr [], pull_answer := Some ''no route''\<rparr>)))) =
     [CallListImages ''busybox'', CallPullImage ''busybox''] \<and>
   fst (resolveImage scripted job0 True
          (state0 (script0\<lparr>images_answer := Inl ''daemon down'', pull_answer := Some ''no route''\<rparr>))) =
     Some (ErrorPullingImage ''busybox'' ''no route'') \<and>
   fst (Run scripted job0
          (state0 (script0\<lparr>images_answer := Inl ''daemon down'', pull_answer := Some ''no route''\<rparr>))) =
     Some (ErrorPullingImage ''busybox'' ''no route'') \<and>
   acquireContainer scripted (job0\<lparr>Container := ''c7''\<rparr>) (state0 script0) =
     getContainer scripted ''c7'' (state0 script0)"
proof -
  let ?sc = "state0 (script0\<lparr>images_answer := Inr [], pull_answer := Some ''no route''\<rparr>)"
  let ?sd = "state0 (script0\<lparr>images_answer := Inl ''daemon down'', pull_answer := Some ''no route''\<rparr>)"
  let ?pe = "ErrorPullingImage ''busybox'' ''no route''"
  note ev = fixture_defs pullImage_def searchLocalImage_def invoke_def ParseBool_def
  have img: "Image job0 = ''busybox''" "Image job0 \<noteq> []" "Container job0 = []"
    "fst (ParseBool (Pull job0)) = True"
    by (simp_all add: job0_def ParseBool_def)
  have a: "fst (pullImage scripted job0 (state0 script0)) = None"
    by (simp add: ev)
  have b: "fst (searchLocalImage scripted job0 (state0 script0)) = None"
    by (simp add: ev)
  have c: "fst (searchLocalImage scripted job0 ?sc) = Some ErrLocalImageNotFound"
    by (simp add: ev)
  have c': "fst (pullImage scripted job0 (snd (searchLocalImage scripted job0 ?sc))) = Some ?pe"
    by (simp add: ev)
  have d: "fst (pullImage scripted job0 ?sd) = Some ?pe"
    by (simp add: ev)
  have d': "fst (searchLocalImage scripted job0 (snd (pullImage scripted job0 ?sd))) =
      Some (ClientError ''daemon down'')"
    by (simp add: ev)
  have s0: "calls (state0 w) = []" for w :: script
    by (simp add: state0_def)
  note T = image_resolution [of scripted job0 "state0 script0" "state0 script0" ?sc ?sd
      ?pe "ClientError ''daemon down''" ?sd ?pe "state0 script0"]
  from T a have "resolveImage scripted job0 True (state0 script0) =
      (None, ctx_Log (''Pulled image '' @ Image job0) (snd (pullImage scripted job0 (state0 script0))))"
    by blast
  then have r1: "fst (resolveImage scripted job0 True (state0 script0)) = None"
    by simp
  from T a have "calls (snd (resolveImage scripted job0 True (state0 script0))) =
      calls (state0 script0) @ [CallPullImage (Image job0)]"
    by blast
  then have r1b: "calls (snd (resolveImage scripted job0 True (state0 script0))) =
      [CallPullImage ''busybox'']"
    by (simp only: img s0 append_Nil)
  from T b have "resolveImage scripted job0 False (state0 script0) =
      (None, ctx_Log (''Found locally image '' @ Image job0)
         (snd (searchLocalImage scripted job0 (state0 script0))))"
    by blast
  then have r2: "fst (resolveImage scripted job0 False (state0 script0)) = None"
    by simp
  from T b have "calls (snd (resolveImage scripted job0 False (state0 script0))) =
      calls (state0 script0) @ [CallListImages (Image job0)]"
    by blast
  then have r2b: "calls (snd (resolveImage scripted job0 False (state0 script0))) =
      [CallListImages ''busybox'']"
    by (simp only: img s0 append_Nil)
  from T c have "fst (resolveImage scripted job0 False ?sc) =
      fst (pullImage scripted job0 (snd (searchLocalImage scripted job0 ?sc)))"
    by blast
  with c' have r3: "fst (resolveImage scripted job0 False ?sc) = Some ?pe"
    by simp
  from T c have "calls (snd (resolveImage scripted job0 False ?sc)) =
      calls ?sc @ [CallListImages (Image job0), CallPullImage (Image job0)]"
    by blast
  then have r3b: "calls (snd (resolveImage scripted job0 False ?sc)) =
      [CallListImages ''busybox'', CallPullImage ''busybox'']"
    by (simp only: img s0 append_Nil)
  from T d d' have r4: "fst (resolveImage scripted job0 True ?sd) = Some ?pe"
    by blast
  from r4 img have "Image job0 \<noteq> [] \<and> Container job0 = [] \<and>
      fst (resolveImage scripted job0 (fst (ParseBool (Pull job0))) ?sd) = Some ?pe"
    by simp
  with T have r5: "fst (Run scripted job0 ?sd) = Some ?pe"
    by blast
  have "\<not> (Image (job0\<lparr>Container := ''c7''\<rparr>) \<noteq> [] \<and> Container (job0\<lparr>Container := ''c7''\<rparr>) = [])"
    by simp
  with image_resolution [of scripted "job0\<lparr>Container := ''c7''\<rparr>" "state0 script0"
      "state0 script0" "state0 script0" "state0 script0" ?pe ?pe "state0 script0" ?pe
      "state0 script0"]
  have "acquireContainer scripted (job0\<lparr>Container := ''c7''\<rparr>) (state0 script0) =
     getContainer scripted (Container (job0\<lparr>Container := ''c7''\<rparr>)) (state0 script0)"
    by blast
  then have r6: "acquireContainer scripted (job0\<lparr>Container := ''c7''\<rparr>) (state0 script0) =
     getContainer scripted ''c7'' (state0 script0)"
    by simp
  from r1 r1b r2 r2b r3 r3b r4 r5 r6 show ?thesis
    by (intro conjI)
qed

section \<open>The watch loop: proofs\<close>

lemma polledRunning_calls:
  "polledRunning cl containerID n s = Some s1 \<Longrightarrow>
   calls s1 = calls s @ replicate n (CallInspectContainer containerID)"
proof (induction n arbitrary: s)
  case 0
  then show ?case by simp
next
  case (Suc n)
  then show ?case
    by (auto simp: invoke_def replicate_append_same
             split: prod.splits sum.splits if_splits)
qed

lemma watch_loop_running:
  "polledRunning cl containerID n s = Some s1 \<Longrightarrow>
   r + int n * watchDuration \<le> maxProcessDuration \<Longrightarrow>
   watch_loop cl containerID r s = watch_loop cl containerID (r + int n * watchDuration) s1"
proof (induction n arbitrary: r s)
  case 0
  then show ?case by simp
next
  case (Suc n)
  obtain res w where insp:
    "InspectContainerWithOptions cl containerID (time_Sleep cl watchDuration (world s)) = (res, w)"
    by (cases "InspectContainerWithOptions cl containerID (time_Sleep cl watchDuration (world s))")
  from Suc.prems(1) insp obtain c where c: "res = Inr c" "State_Running (State c)"
    and rest: "polledRunning cl containerID n (invoke (CallInspectContainer containerID) w s) = Some s1"
    by (auto split: sum.splits if_splits)
  have wd: "0 < watchDuration"
    by (simp add: watchDuration_def)
  have "0 \<le> int n * watchDuration"
    using wd by simp
  with Suc.prems(2) have le: "r + watchDuration \<le> maxProcessDuration"
    by (simp add: algebra_simps)
  from Suc.prems(2) have le': "(r + watchDuration) + int n * watchDuration \<le> maxProcessDuration"
    by (simp add: algebra_simps)
  have "watch_loop cl containerID r s =
        watch_loop cl containerID (r + watchDuration) (invoke (CallInspectContainer containerID) w s)"
    using le insp c by (subst watch_loop.simps) simp
  also have "\<dots> = watch_loop cl containerID ((r + watchDuration) + int n * watchDuration) s1"
    by (rule Suc.IH [OF rest le'])
  finally show ?case
    by (simp add: algebra_simps)
qed

lemma watch_loop_stops:
  assumes "r + watchDuration \<le> maxProcessDuration"
    and "InspectContainerWithOptions cl containerID (time_Sleep cl watchDuration (world s)) = (Inr c, w)"
    and "\<not> State_Running (State c)"
  shows "watch_loop cl containerID r s = (Inr (State c), invoke (CallInspectContainer containerID) w s)"
  using assms by (subst watch_loop.simps) simp

lemma watch_loop_ceiling:
  assumes "r + watchDuration > maxProcessDuration"
  shows "watch_loop cl containerID r s =
         (Inl ErrMaxTimeRunning, s\<lparr>world := time_Sleep cl watchDuration (world s)\<rparr>)"
  using assms by (subst watch_loop.simps) simp

lemma watchContainer_stops:
  assumes n: "n < 864000"
    and run: "polledRunning cl containerID n s = Some s1"
    and insp: "InspectContainerWithOptions cl containerID (time_Sleep cl watchDuration (world s1)) = (Inr c, w)"
    and stop: "\<not> State_Running (State c)"
  shows "watchContainer cl containerID s =
         (exitCodeError (State_ExitCode (State c)), invoke (CallInspectContainer containerID) w s1)"
proof -
  from n have le: "0 + int n * watchDuration \<le> maxProcessDuration"
    and le': "(0 + int n * watchDuration) + watchDuration \<le> maxProcessDuration"
    by (simp_all add: watchDuration_def maxProcessDuration_def)
  have "watch_loop cl containerID 0 s = watch_loop cl containerID (0 + int n * watchDuration) s1"
    by (rule watch_loop_running [OF run le])
  also have "\<dots> = (Inr (State c), invoke (CallInspectContainer containerID) w s1)"
    by (rule watch_loop_stops [OF le' insp stop])
  finally show ?thesis
    by (simp add: watchContainer_def)
qed

lemma watchContainer_ceiling:
  assumes run: "polledRunning cl containerID 864000 s = Some s1"
  shows "watchContainer cl containerID s =
         (Some ErrMaxTimeRunning, s1\<lparr>world := time_Sleep cl watchDuration (world s1)\<rparr>)"
proof -
  have le: "0 + int 864000 * watchDuration \<le> maxProcessDuration"
    and gt: "(0 + int 864000 * watchDuration) + watchDuration > maxProcessDuration"
    by (simp_all add: watchDuration_def maxProcessDuration_def)
  have "watch_loop cl containerID 0 s = watch_loop cl containerID (0 + int 864000 * watchDuration) s1"
    by (rule watch_loop_running [OF run le])
  also have "\<dots> = (Inl ErrMaxTimeRunning, s1\<lparr>world := time_Sleep cl watchDuration (world s1)\<rparr>)"
    by (rule watch_loop_ceiling [OF gt])
  finally show ?thesis
    by (simp add: watchContainer_def)
qed

text \<open>
  Claim C2. The result of the watch, for every behaviour of the runtime. If the container
  is found running in each of the first \<open>n\<close> rounds, fewer than the 864000 rounds that fit
  below the ceiling of 24 hours, and stopped in the next one, the watch ends there with
  that inspection as its last, and its error is nil for the exit code 0, \<open>ErrUnexpected\<close>
  for the exit code -1, and an error carrying the code for any other code. If the
  container is found running in all 864000 rounds, the watch returns
  \<open>ErrMaxTimeRunning\<close> at the next check of the elapsed time, after the sleep and without
  another inspection: exactly 864000 inspections were made.
\<close>

theorem watch_classification:
  "(n < 864000 \<and> polledRunning cl containerID n s = Some s1 \<and>
    InspectContainerWithOptions cl containerID (time_Sleep cl watchDuration (world s1)) = (Inr c, w) \<and>
    \<not> State_Running (State c) \<longrightarrow>
      snd (watchContainer cl containerID s) = invoke (CallInspectContainer containerID) w s1 \<and>
      (State_ExitCode (State c) = 0 \<longrightarrow> fst (watchContainer cl containerID s) = None) \<and>
      (State_ExitCode (State c) = - 1 \<longrightarrow>
         fst (watchContainer cl containerID s) = Some ErrUnexpected) \<and>
      (State_ExitCode (State c) \<noteq> 0 \<and> State_ExitCode (State c) \<noteq> - 1 \<longrightarrow>
         fst (watchContainer cl containerID s) = Some (ErrorNonZeroExit (State_ExitCode (State c))))) \<and>
   (polledRunning cl containerID 864000 t = Some t1 \<longrightarrow>
      watchContainer cl containerID t =
        (Some ErrMaxTimeRunning, t1\<lparr>world := time_Sleep cl watchDuration (world t1)\<rparr>) \<and>
      calls (snd (watchContainer cl containerID t)) =
        calls t @ replicate 864000 (CallInspectContainer containerID))"
proof (intro conjI impI)
  assume h: "n < 864000 \<and> polledRunning cl containerID n s = Some s1 \<and>
    InspectContainerWithOptions cl containerID (time_Sleep cl watchDuration (world s1)) = (Inr c, w) \<and>
    \<not> State_Running (State c)"
  then have eq: "watchContainer cl containerID s =
      (exitCodeError (State_ExitCode (State c)), invoke (CallInspectContainer containerID) w s1)"
    by (elim conjE) (rule watchContainer_stops)
  from eq show "snd (watchContainer cl containerID s) = invoke (CallInspectContainer containerID) w s1"
    by simp
  {
    assume "State_ExitCode (State c) = 0"
    with eq show "fst (watchContainer cl containerID s) = None"
      by (simp add: exitCodeError_def)
  }
  {
    assume "State_ExitCode (State c) = - 1"
    with eq show "fst (watchContainer cl containerID s) = Some ErrUnexpected"
      by (simp add: exitCodeError_def)
  }
  {
    assume "State_ExitCode (State c) \<noteq> 0 \<and> State_ExitCode (State c) \<noteq> - 1"
    with eq show "fst (watchContainer cl containerID s) =
        Some (ErrorNonZeroExit (State_ExitCode (State c)))"
      by (simp add: exitCodeError_def)
  }
next
  assume h: "polledRunning cl containerID 864000 t = Some t1"
  then show eq: "watchContainer cl containerID t =
        (Some ErrMaxTimeRunning, t1\<lparr>world := time_Sleep cl watchDuration (world t1)\<rparr>)"
    by (rule watchContainer_ceiling)
  from eq polledRunning_calls [OF h]
  show "calls (snd (watchContainer cl containerID t)) =
        calls t @ replicate 864000 (CallInspectContainer containerID)"
    by simp
qed

lemma scripted_keeps_running:
  "n \<le> running_polls (world s) \<Longrightarrow>
   \<exists>s1. polledRunning scripted containerID n s = Some s1 \<and>
        running_polls (world s1) = running_polls (world s) - n \<and>
        exit_code (world s1) = exit_code (world s)"
proof (induction n arbitrary: s)
  case 0
  then show ?case by simp
next
  case (Suc n)
  let ?w = "(world s)\<lparr>clock := clock (world s) + watchDuration,
                        running_polls := running_polls (world s) - 1\<rparr>"
  from Suc.prems have "n \<le> running_polls (world (invoke (CallInspectContainer containerID) ?w s))"
    by (simp add: invoke_def)
  from Suc.IH [OF this] Suc.prems show ?case
    by (simp add: scripted_def invoke_def)
qed

lemma scripted_inspect_stopped:
  "running_polls w = 0 \<Longrightarrow>
   InspectContainerWithOptions scripted containerID (time_Sleep scripted d w) =
     (Inr \<lparr>ID = containerID, State = \<lparr>State_Running = False, State_ExitCode = exit_code w\<rparr>\<rparr>,
      w\<lparr>clock := clock w + d, running_polls := 0\<rparr>)"
  by (simp add: scripted_def)

theorem watch_classification_witness:
  "fst (watchContainer scripted ''c1'' (state0 script0)) = None \<and>
   fst (watchContainer scripted ''c1'' (state0 (script0\<lparr>exit_code := - 1\<rparr>))) = Some ErrUnexpected \<and>
   fst (watchContainer scripted ''c1'' (state0 (script0\<lparr>exit_code := 7\<rparr>))) =
     Some (ErrorNonZeroExit 7) \<and>
   fst (watchContainer scripted ''c1'' (state0 (script0\<lparr>running_polls := 1000000\<rparr>))) =
     Some ErrMaxTimeRunning \<and>
   calls (snd (watchContainer scripted ''c1'' (state0 (script0\<lparr>running_polls := 1000000\<rparr>)))) =
     replicate 864000 (CallInspectContainer ''c1'')"
proof -
  have stops: "(e = 0 \<longrightarrow> fst (watchContainer scripted ''c1'' (state0 (script0\<lparr>exit_code := e\<rparr>))) = None) \<and>
      (e = - 1 \<longrightarrow>
         fst (watchContainer scripted ''c1'' (state0 (script0\<lparr>exit_code := e\<rparr>))) = Some ErrUnexpected) \<and>
      (e \<noteq> 0 \<and> e \<noteq> - 1 \<longrightarrow>
         fst (watchContainer scripted ''c1'' (state0 (script0\<lparr>exit_code := e\<rparr>))) =
           Some (ErrorNonZeroExit e))" for e
  proof -
    let ?s = "state0 (script0\<lparr>exit_code := e\<rparr>)"
    have "2 \<le> running_polls (world ?s)"
      by (simp add: state0_def script0_def)
    from scripted_keeps_running [OF this, of "''c1''"]
    obtain s1 where run: "polledRunning scripted ''c1'' 2 ?s = Some s1"
      and left: "running_polls (world s1) = 0" and code: "exit_code (world s1) = e"
      by (auto simp: state0_def script0_def)
    let ?c = "\<lparr>ID = ''c1'', State = \<lparr>State_Running = False, State_ExitCode = e\<rparr>\<rparr>"
    let ?w = "(world s1)\<lparr>clock := clock (world s1) + watchDuration, running_polls := 0\<rparr>"
    have insp: "InspectContainerWithOptions scripted ''c1''
        (time_Sleep scripted watchDuration (world s1)) = (Inr ?c, ?w)"
      using scripted_inspect_stopped [OF left, of "''c1''" watchDuration] code by simp
    have "(2::nat) < 864000 \<and> polledRunning scripted ''c1'' 2 ?s = Some s1 \<and>
        InspectContainerWithOptions scripted ''c1''
          (time_Sleep scripted watchDuration (world s1)) = (Inr ?c, ?w) \<and>
        \<not> State_Running (State ?c)"
      using run insp by simp
    with watch_classification [of 2 scripted "''c1''" ?s s1 ?c ?w ?s s1]
    show ?thesis
      by simp
  qed
  have r0: "fst (watchContainer scripted ''c1'' (state0 script0)) = None"
    using stops [of 0] by (simp add: script0_def)
  have r1: "fst (watchContainer scripted ''c1'' (state0 (script0\<lparr>exit_code := - 1\<rparr>))) =
      Some ErrUnexpected"
    using stops [of "- 1"] by simp
  have r7: "fst (watchContainer scripted ''c1'' (state0 (script0\<lparr>exit_code := 7\<rparr>))) =
      Some (ErrorNonZeroExit 7)"
    using stops [of 7] by simp
  let ?t = "state0 (script0\<lparr>running_polls := 1000000\<rparr>)"
  have "864000 \<le> running_polls (world ?t)"
    by (simp add: state0_def)
  from scripted_keeps_running [OF this, of "''c1''"]
  obtain t1 where run: "polledRunning scripted ''c1'' 864000 ?t = Some t1"
    by auto
  with watch_classification [of 0 scripted "''c1''" ?t t1
      "\<lparr>ID = ''c1'', State = \<lparr>State_Running = True, State_ExitCode = 0\<rparr>\<rparr>" script0 ?t t1]
  have "watchContainer scripted ''c1'' ?t =
        (Some ErrMaxTimeRunning, t1\<lparr>world := time_Sleep scripted watchDuration (world t1)\<rparr>)"
    and c: "calls (snd (watchContainer scripted ''c1'' ?t)) =
        calls ?t @ replicate 864000 (CallInspectContainer ''c1'')"
    by blast+
  then have rm: "fst (watchContainer scripted ''c1'' ?t) = Some ErrMaxTimeRunning"
    by simp
  from c have rc: "calls (snd (watchContainer scripted ''c1'' ?t)) =
      replicate 864000 (CallInspectContainer ''c1'')"
    by (simp add: state0_def)
  from r0 r1 r7 rm rc show ?thesis
    by (intro conjI)
qed

section \<open>The driver: proofs\<close>

lemma Run_after_start:
  assumes "acquireContainer cl j s = (Inr c, s1)"
    and "startContainer cl c s1 = (None, s2)"
    and "watchContainer cl (ID c) s2 = (err, s3)"
  shows "Run cl j s =
         (if err = Some ErrUnexpected then (err, s3)
          else (err, deferredDelete cl j c (fetchLogs cl j c (time_Now cl (world s1)) s3)))"
  using assms by (simp add: Run_def)

lemma calls_fetchLogs:
  "calls (fetchLogs cl j c startTime s) = calls s @ [CallLogs (logsOptions j c startTime)]"
  by (simp add: fetchLogs_def invoke_def ctx_Warn_def Let_def split: prod.splits option.splits)

lemma OutputStream_fetchLogs:
  "OutputStream (fetchLogs cl j c startTime s) =
     OutputStream s @ fst (snd (fst (Logs cl (logsOptions j c startTime) (world s))))"
  by (simp add: fetchLogs_def invoke_def ctx_Warn_def Let_def split: prod.splits option.splits)

lemma ErrorStream_fetchLogs:
  "ErrorStream (fetchLogs cl j c startTime s) =
     ErrorStream s @ snd (snd (fst (Logs cl (logsOptions j c startTime) (world s))))"
  by (simp add: fetchLogs_def invoke_def ctx_Warn_def Let_def split: prod.splits option.splits)

lemma messages_fetchLogs:
  "messages (fetchLogs cl j c startTime s) =
     messages s @
       (case fst (fst (Logs cl (logsOptions j c startTime) (world s))) of
          Some e \<Rightarrow> [Warn ''failed to fetch container logs: '' (ClientError e)]
        | None \<Rightarrow> [])"
  by (simp add: fetchLogs_def invoke_def ctx_Warn_def Let_def split: prod.splits option.splits)

lemma calls_deferredDelete:
  "calls (deferredDelete cl j c s) =
     calls s @ (if Container j = [] \<and> fst (ParseBool (Delete j))
                then [CallRemoveContainer (ID c)] else [])"
  by (simp add: deferredDelete_def deleteContainer_def invoke_def ctx_Warn_def
           split: prod.splits option.splits)

lemma streams_deferredDelete:
  "OutputStream (deferredDelete cl j c s) = OutputStream s"
  "ErrorStream (deferredDelete cl j c s) = ErrorStream s"
  by (simp_all add: deferredDelete_def deleteContainer_def invoke_def ctx_Warn_def
           split: prod.splits option.splits)

lemma messages_deferredDelete:
  "set (messages s) \<subseteq> set (messages (deferredDelete cl j c s))"
  by (auto simp: deferredDelete_def deleteContainer_def invoke_def ctx_Warn_def
           split: prod.splits option.splits)

text \<open>
  Claim C3, as amended. In a run of the container-run job whose container was acquired
  (created, or found by its identifier) and started, let \<open>err\<close> be the result of the
  watch. Unless \<open>err\<close> is \<open>ErrUnexpected\<close>, the logs are fetched right after the watch,
  for that container and since the start time, into the two output streams of the
  Execution, whatever else \<open>err\<close> is; the only later operation is the removal of the
  container; a failure to fetch the logs becomes a warning, and \<open>Run\<close> returns \<open>err\<close>.
  When \<open>err\<close> is \<open>ErrUnexpected\<close>, \<open>Run\<close> returns it at once, in the state the watch
  left: no logs are fetched.
\<close>

theorem logs_after_watch:
  "acquireContainer cl j s = (Inr c, s1) \<and> startContainer cl c s1 = (None, s2) \<and>
   watchContainer cl (ID c) s2 = (err, s3) \<longrightarrow>
     (err \<noteq> Some ErrUnexpected \<longrightarrow>
        fst (Run cl j s) = err \<and>
        calls (snd (Run cl j s)) =
          calls s3 @ [CallLogs (logsOptions j c (time_Now cl (world s1)))] @
          (if Container j = [] \<and> fst (ParseBool (Delete j)) then [CallRemoveContainer (ID c)] else []) \<and>
        OutputStream (snd (Run cl j s)) =
          OutputStream s3 @
          fst (snd (fst (Logs cl (logsOptions j c (time_Now cl (world s1))) (world s3)))) \<and>
        ErrorStream (snd (Run cl j s)) =
          ErrorStream s3 @
          snd (snd (fst (Logs cl (logsOptions j c (time_Now cl (world s1))) (world s3)))) \<and>
        (fst (fst (Logs cl (logsOptions j c (time_Now cl (world s1))) (world s3))) = Some logsErr \<longrightarrow>
           Warn ''failed to fetch container logs: '' (ClientError logsErr)
             \<in> set (messages (snd (Run cl j s))))) \<and>
     (err = Some ErrUnexpected \<longrightarrow> Run cl j s = (Some ErrUnexpected, s3))"
proof (intro impI)
  assume h: "acquireContainer cl j s = (Inr c, s1) \<and> startContainer cl c s1 = (None, s2) \<and>
    watchContainer cl (ID c) s2 = (err, s3)"
  let ?t = "time_Now cl (world s1)"
  from h have run: "Run cl j s =
         (if err = Some ErrUnexpected then (err, s3)
          else (err, deferredDelete cl j c (fetchLogs cl j c ?t s3)))"
    by (elim conjE) (rule Run_after_start)
  show "(err \<noteq> Some ErrUnexpected \<longrightarrow>
        fst (Run cl j s) = err \<and>
        calls (snd (Run cl j s)) =
          calls s3 @ [CallLogs (logsOptions j c ?t)] @
          (if Container j = [] \<and> fst (ParseBool (Delete j)) then [CallRemoveContainer (ID c)] else []) \<and>
        OutputStream (snd (Run cl j s)) =
          OutputStream s3 @ fst (snd (fst (Logs cl (logsOptions j c ?t) (world s3)))) \<and>
        ErrorStream (snd (Run cl j s)) =
          ErrorStream s3 @ snd (snd (fst (Logs cl (logsOptions j c ?t) (world s3)))) \<and>
        (fst (fst (Logs cl (logsOptions j c ?t) (world s3))) = Some logsErr \<longrightarrow>
           Warn ''failed to fetch container logs: '' (ClientError logsErr)
             \<in> set (messages (snd (Run cl j s))))) \<and>
     (err = Some ErrUnexpected \<longrightarrow> Run cl j s = (Some ErrUnexpected, s3))"
  proof (cases "err = Some ErrUnexpected")
    case True
    with run show ?thesis by simp
  next
    case False
    with run have eq: "Run cl j s = (err, deferredDelete cl j c (fetchLogs cl j c ?t s3))"
      by simp
    have warn: "Warn ''failed to fetch container logs: '' (ClientError logsErr)
        \<in> set (messages (deferredDelete cl j c (fetchLogs cl j c ?t s3)))"
      if "fst (fst (Logs cl (logsOptions j c ?t) (world s3))) = Some logsErr"
    proof -
      from that have "Warn ''failed to fetch container logs: '' (ClientError logsErr)
          \<in> set (messages (fetchLogs cl j c ?t s3))"
        by (simp add: messages_fetchLogs)
      with messages_deferredDelete show ?thesis
        by blast
    qed
    from False eq warn show ?thesis
      by (simp add: calls_deferredDelete calls_fetchLogs streams_deferredDelete
            OutputStream_fetchLogs ErrorStream_fetchLogs)
  qed
qed

text \<open>The unfolding of a whole run, for the concrete runs below.\<close>

lemmas run_defs = Run_def acquireContainer_def resolveImage_def pullImage_def
  searchLocalImage_def buildContainer_def createOptions_def connectNetworks.simps
  startContainer_def getContainer_def watchContainer_def exitCodeError_def fetchLogs_def
  logsOptions_def deferredDelete_def deleteContainer_def ParseBool_def invoke_def ctx_Log_def
  ctx_Warn_def watchDuration_def maxProcessDuration_def

theorem logs_after_watch_witness:
  "fst (Run scripted job0
          (state0 (script0\<lparr>exit_code := 7, logs_answer := (Some ''boom'', ''partial'', [])\<rparr>))) =
     Some (ErrorNonZeroExit 7) \<and>
   calls (snd (Run scripted job0
          (state0 (script0\<lparr>exit_code := 7, logs_answer := (Some ''boom'', ''partial'', [])\<rparr>)))) =
     [CallPullImage ''busybox'', CallCreateContainer (createOptions scripted job0),
      CallStartContainer ''c1'', CallInspectContainer ''c1'', CallInspectContainer ''c1'',
      CallInspectContainer ''c1'',
      CallLogs \<lparr>Logs_Container = ''c1'', Logs_Stdout = True, Logs_Stderr = True, Logs_Since = 0,
                Logs_RawTerminal = False\<rparr>,
      CallRemoveContainer ''c1''] \<and>
   OutputStream (snd (Run scripted job0
          (state0 (script0\<lparr>exit_code := 7, logs_answer := (Some ''boom'', ''partial'', [])\<rparr>)))) =
     ''partial'' \<and>
   Warn ''failed to fetch container logs: '' (ClientError ''boom'')
     \<in> set (messages (snd (Run scripted job0
          (state0 (script0\<lparr>exit_code := 7, logs_answer := (Some ''boom'', ''partial'', [])\<rparr>))))) \<and>
   fst (Run scripted job0 (state0 (script0\<lparr>exit_code := - 1\<rparr>))) = Some ErrUnexpected"
proof -
  let ?c = "\<lparr>ID = ''c1'', State = \<lparr>State_Running = False, State_ExitCode = 0\<rparr>\<rparr>"
  let ?s = "state0 (script0\<lparr>exit_code := 7, logs_answer := (Some ''boom'', ''partial'', [])\<rparr>)"
  let ?s1 = "snd (acquireContainer scripted job0 ?s)"
  let ?s2 = "snd (startContainer scripted ?c ?s1)"
  let ?s3 = "snd (watchContainer scripted (ID ?c) ?s2)"
  let ?err = "Some (ErrorNonZeroExit 7)"
  note ev = run_defs fixture_defs watch_loop.simps
  have hyp: "acquireContainer scripted job0 ?s = (Inr ?c, ?s1) \<and>
      startContainer scripted ?c ?s1 = (None, ?s2) \<and>
      watchContainer scripted (ID ?c) ?s2 = (?err, ?s3)"
    by (simp add: ev)
  have ne: "?err \<noteq> Some ErrUnexpected"
    by simp
  have logs: "fst (fst (Logs scripted (logsOptions job0 ?c (time_Now scripted (world ?s1)))
      (world ?s3))) = Some ''boom''"
    by (simp add: ev)
  note T = logs_after_watch [of scripted job0 ?s ?c ?s1 ?s2 ?err ?s3 "''boom''"]
  from T hyp ne have "fst (Run scripted job0 ?s) = ?err"
    by blast
  moreover
  from T hyp ne have "calls (snd (Run scripted job0 ?s)) =
      calls ?s3 @ [CallLogs (logsOptions job0 ?c (time_Now scripted (world ?s1)))] @
      (if Container job0 = [] \<and> fst (ParseBool (Delete job0))
       then [CallRemoveContainer (ID ?c)] else [])"
    by blast
  then have "calls (snd (Run scripted job0 ?s)) =
     [CallPullImage ''busybox'', CallCreateContainer (createOptions scripted job0),
      CallStartContainer ''c1'', CallInspectContainer ''c1'', CallInspectContainer ''c1'',
      CallInspectContainer ''c1'',
      CallLogs \<lparr>Logs_Container = ''c1'', Logs_Stdout = True, Logs_Stderr = True, Logs_Since = 0,
                Logs_RawTerminal = False\<rparr>,
      CallRemoveContainer ''c1'']"
    by (simp add: ev)
  moreover
  from T hyp ne have "OutputStream (snd (Run scripted job0 ?s)) =
      OutputStream ?s3 @
      fst (snd (fst (Logs scripted (logsOptions job0 ?c (time_Now scripted (world ?s1))) (world ?s3))))"
    by blast
  then have "OutputStream (snd (Run scripted job0 ?s)) = ''partial''"
    by (simp add: ev)
  moreover
  from T hyp ne logs have "Warn ''failed to fetch container logs: '' (ClientError ''boom'')
      \<in> set (messages (snd (Run scripted job0 ?s)))"
    by blast
  moreover
  have "fst (Run scripted job0 (state0 (script0\<lparr>exit_code := - 1\<rparr>))) = Some ErrUnexpected"
  proof -
    let ?u = "state0 (script0\<lparr>exit_code := - 1\<rparr>)"
    let ?u1 = "snd (acquireContainer scripted job0 ?u)"
    let ?u2 = "snd (startContainer scripted ?c ?u1)"
    let ?u3 = "snd (watchContainer scripted (ID ?c) ?u2)"
    have "acquireContainer scripted job0 ?u = (Inr ?c, ?u1) \<and>
        startContainer scripted ?c ?u1 = (None, ?u2) \<and>
        watchContainer scripted (ID ?c) ?u2 = (Some ErrUnexpected, ?u3)"
      by (simp add: ev)
    with logs_after_watch [of scripted job0 ?u ?c ?u1 ?u2 "Some ErrUnexpected" ?u3 "''boom''"]
    have "Run scripted job0 ?u = (Some ErrUnexpected, ?u3)"
      by blast
    then show ?thesis
      by simp
  qed
  ultimately show ?thesis
    by (intro conjI)
qed

text \<open>
  Claim C3 as stated fails: the container of this run is created, started and watched
  until it stops with the exit code -1; \<open>Run\<close> returns \<open>ErrUnexpected\<close>, the client was
  never asked for the logs, and the output stream is empty although the runtime had
  output to give.
\<close>

theorem logs_skipped_when_unexpected:
  "fst (Run scripted job0 (state0 (script0\<lparr>exit_code := - 1\<rparr>))) = Some ErrUnexpected \<and>
   calls (snd (Run scripted job0 (state0 (script0\<lparr>exit_code := - 1\<rparr>)))) =
     [CallPullImage ''busybox'', CallCreateContainer (createOptions scripted job0),
      CallStartContainer ''c1'', CallInspectContainer ''c1'', CallInspectContainer ''c1'',
      CallInspectContainer ''c1''] \<and>
   OutputStream (snd (Run scripted job0 (state0 (script0\<lparr>exit_code := - 1\<rparr>)))) = [] \<and>
   fst (snd (logs_answer (world (snd (Run scripted job0 (state0 (script0\<lparr>exit_code := - 1\<rparr>))))))) =
     ''out''"
  by (simp add: run_defs fixture_defs watch_loop.simps)

subsection \<open>The returned value\<close>

lemma watch_loop_ignores_logs_and_remove:
  "watch_loop (cl\<lparr>Logs := logs', RemoveContainer := remove'\<rparr>) containerID r s =
   watch_loop cl containerID r s"
proof (induction cl containerID r s rule: watch_loop.induct)
  case (1 cl containerID r s)
  show ?case
    apply (subst watch_loop.simps)
    apply (subst (2) watch_loop.simps)
    using 1 by (auto split: prod.splits sum.splits)
qed

lemma connectNetworks_ignores_logs_and_remove:
  "connectNetworks (cl\<lparr>Logs := logs', RemoveContainer := remove'\<rparr>) containerID networks s =
   connectNetworks cl containerID networks s"
  by (induction networks arbitrary: s) (auto split: prod.splits option.splits)

lemma pullImage_ignores_logs_and_remove:
  "pullImage (cl\<lparr>Logs := logs', RemoveContainer := remove'\<rparr>) j s = pullImage cl j s"
  by (simp add: pullImage_def)

lemma searchLocalImage_ignores_logs_and_remove:
  "searchLocalImage (cl\<lparr>Logs := logs', RemoveContainer := remove'\<rparr>) j s = searchLocalImage cl j s"
  by (simp add: searchLocalImage_def)

lemma resolveImage_ignores_logs_and_remove:
  "resolveImage (cl\<lparr>Logs := logs', RemoveContainer := remove'\<rparr>) j pull s = resolveImage cl j pull s"
  by (simp add: resolveImage_def pullImage_ignores_logs_and_remove
        searchLocalImage_ignores_logs_and_remove
      cong: prod.case_cong if_cong)

lemma buildContainer_ignores_logs_and_remove:
  "buildContainer (cl\<lparr>Logs := logs', RemoveContainer := remove'\<rparr>) j s = buildContainer cl j s"
  by (simp add: buildContainer_def createOptions_def connectNetworks_ignores_logs_and_remove
        Let_def split: prod.splits sum.splits option.splits)

lemma getContainer_ignores_logs_and_remove:
  "getContainer (cl\<lparr>Logs := logs', RemoveContainer := remove'\<rparr>) ident s = getContainer cl ident s"
  by (simp add: getContainer_def)

lemma acquireContainer_ignores_logs_and_remove:
  "acquireContainer (cl\<lparr>Logs := logs', RemoveContainer := remove'\<rparr>) j s = acquireContainer cl j s"
  by (simp add: acquireContainer_def resolveImage_ignores_logs_and_remove
        buildContainer_ignores_logs_and_remove getContainer_ignores_logs_and_remove
      split: prod.splits sum.splits option.splits)

lemma startContainer_ignores_logs_and_remove:
  "startContainer (cl\<lparr>Logs := logs', RemoveContainer := remove'\<rparr>) c s = startContainer cl c s"
  by (simp add: startContainer_def)

lemma watchContainer_ignores_logs_and_remove:
  "watchContainer (cl\<lparr>Logs := logs', RemoveContainer := remove'\<rparr>) containerID s =
   watchContainer cl containerID s"
  by (simp add: watchContainer_def watch_loop_ignores_logs_and_remove)

lemma fst_Run:
  "fst (Run cl j s) =
     (case acquireContainer cl j s of
        (Inl err, s1) \<Rightarrow> Some err
      | (Inr c, s1) \<Rightarrow>
          (case startContainer cl c s1 of
             (Some err, s2) \<Rightarrow> Some err
           | (None, s2) \<Rightarrow> fst (watchContainer cl (ID c) s2)))"
  by (simp add: Run_def split: prod.splits sum.splits option.splits)

text \<open>
  Claim C4. Once the container is acquired and started, the value \<open>Run\<close> returns is the
  error of the watch, nil included. Fetching the logs and removing the container never
  change it: whatever the client's \<open>Logs\<close> and \<open>RemoveContainer\<close> do, \<open>Run\<close> returns
  the same value.
\<close>

theorem returned_value:
  "(acquireContainer cl j s = (Inr c, s1) \<and> startContainer cl c s1 = (None, s2) \<longrightarrow>
      fst (Run cl j s) = fst (watchContainer cl (ID c) s2)) \<and>
   fst (Run (cl\<lparr>Logs := logs', RemoveContainer := remove'\<rparr>) j s) = fst (Run cl j s)"
  by (simp add: fst_Run acquireContainer_ignores_logs_and_remove
        startContainer_ignores_logs_and_remove watchContainer_ignores_logs_and_remove
      cong: prod.case_cong sum.case_cong option.case_cong)

theorem returned_value_witness:
  "fst (Run scripted job0
          (state0 (script0\<lparr>exit_code := 7, logs_answer := (Some ''boom'', [], []),
                           remove_answer := Some ''busy''\<rparr>))) =
     Some (ErrorNonZeroExit 7) \<and>
   fst (Run (scripted\<lparr>Logs := (\<lambda>opts w. ((Some ''boom'', [], []), w)),
                      RemoveContainer := (\<lambda>containerID w. (Some ''busy'', w))\<rparr>)
          job0 (state0 script0)) =
     fst (Run scripted job0 (state0 script0))"
proof -
  let ?c = "\<lparr>ID = ''c1'', State = \<lparr>State_Running = False, State_ExitCode = 0\<rparr>\<rparr>"
  let ?s = "state0 (script0\<lparr>exit_code := 7, logs_answer := (Some ''boom'', [], []),
                            remove_answer := Some ''busy''\<rparr>)"
  let ?s1 = "snd (acquireContainer scripted job0 ?s)"
  let ?s2 = "snd (startContainer scripted ?c ?s1)"
  note ev = run_defs fixture_defs watch_loop.simps
  have hyp: "acquireContainer scripted job0 ?s = (Inr ?c, ?s1) \<and>
      startContainer scripted ?c ?s1 = (None, ?s2)"
    by (simp add: ev)
  have watch: "fst (watchContainer scripted (ID ?c) ?s2) = Some (ErrorNonZeroExit 7)"
    by (simp add: ev)
  from returned_value [of scripted job0 ?s ?c ?s1 ?s2] hyp
  have "fst (Run scripted job0 ?s) = fst (watchContainer scripted (ID ?c) ?s2)"
    by blast
  with watch have "fst (Run scripted job0 ?s) = Some (ErrorNonZeroExit 7)"
    by simp
  moreover
  from returned_value [where cl = scripted and j = job0 and s = "state0 script0" and c = ?c
      and ?s1.0 = ?s1 and ?s2.0 = ?s2
      and logs' = "\<lambda>opts w. ((Some ''boom'', [], []), w)"
      and remove' = "\<lambda>containerID w. (Some ''busy'', w)"]
  have "fst (Run (scripted\<lparr>Logs := (\<lambda>opts w. ((Some ''boom'', [], []), w)),
                      RemoveContainer := (\<lambda>containerID w. (Some ''busy'', w))\<rparr>)
          job0 (state0 script0)) =
     fst (Run scripted job0 (state0 script0))"
    by blast
  ultimately show ?thesis
    by (intro conjI)
qed

section \<open>Building the container: proofs\<close>

lemma connectNetworks_messages:
  "messages (snd (connectNetworks cl containerID networks s)) = messages s"
  by (induction networks arbitrary: s)
     (auto simp: invoke_def split: prod.splits option.splits)

lemma connectNetworks_fails:
  "fst (connectNetworks cl containerID networks s) = Some err \<Longrightarrow>
   \<exists>network e. network \<in> set networks \<and> err = ErrorConnectingNetwork e \<and>
     last (calls (snd (connectNetworks cl containerID networks s))) =
       CallConnectNetwork network containerID"
proof (induction networks arbitrary: s)
  case Nil
  then show ?case by simp
next
  case (Cons network networks)
  obtain r w where c: "ConnectNetwork cl network containerID (world s) = (r, w)"
    by (cases "ConnectNetwork cl network containerID (world s)")
  show ?case
  proof (cases r)
    case None
    with c Cons.prems
    have "fst (connectNetworks cl containerID networks
                (invoke (CallConnectNetwork network containerID) w s)) = Some err"
      by simp
    from Cons.IH [OF this] c None show ?thesis
      by auto
  next
    case (Some e)
    with c Cons.prems show ?thesis
      by (auto simp: invoke_def)
  qed
qed

lemma buildContainer_messages: "messages (snd (buildContainer cl j s)) = messages s"
  by (auto simp: buildContainer_def invoke_def Let_def connectNetworks_messages
           split: prod.splits sum.splits option.splits
           dest: arg_cong [where f = "\<lambda>p. messages (snd p)"])

lemma buildContainer_list_fails:
  assumes "CreateContainer cl (createOptions cl j) (world s) = (Inr c, w)"
    and "Network j \<noteq> []"
    and "FilteredListNetworks cl (Network j) w = (Inl listErr, w')"
  shows "buildContainer cl j s =
     (Inr c, s\<lparr>world := w',
               calls := calls s @ [CallCreateContainer (createOptions cl j),
                                   CallFilteredListNetworks (Network j)]\<rparr>)"
  using assms by (simp add: buildContainer_def invoke_def)

lemma buildContainer_error:
  assumes "CreateContainer cl (createOptions cl j) (world s) = (Inr c, w)"
    and "fst (buildContainer cl j s) = Inl err"
  shows "Network j \<noteq> [] \<and>
     (\<exists>networks w'. FilteredListNetworks cl (Network j) w = (Inr networks, w') \<and>
        (\<exists>network e. network \<in> set networks \<and> err = ErrorConnectingNetwork e \<and>
           last (calls (snd (buildContainer cl j s))) = CallConnectNetwork network (ID c)))"
proof -
  from assms have net: "Network j \<noteq> []"
    by (auto simp: buildContainer_def Let_def split: if_splits)
  obtain r' w' where l: "FilteredListNetworks cl (Network j) w = (r', w')"
    by (cases "FilteredListNetworks cl (Network j) w")
  let ?s1 = "invoke (CallCreateContainer (createOptions cl j)) w s"
  let ?s2 = "invoke (CallFilteredListNetworks (Network j)) w' ?s1"
  have w1: "world ?s1 = w"
    by (simp add: invoke_def)
  from assms net l w1 obtain networks where r': "r' = Inr networks"
    by (cases r') (auto simp: buildContainer_def Let_def)
  from assms net l w1 r'
  have b: "buildContainer cl j s =
      (case connectNetworks cl (ID c) networks ?s2 of
         (Some err, s3) \<Rightarrow> (Inl err, s3) | (None, s3) \<Rightarrow> (Inr c, s3))"
    by (simp add: buildContainer_def Let_def)
  with assms(2) have f: "fst (connectNetworks cl (ID c) networks ?s2) = Some err"
    and s: "snd (buildContainer cl j s) = snd (connectNetworks cl (ID c) networks ?s2)"
    by (auto split: prod.splits option.splits)
  from connectNetworks_fails [OF f] s l r' net show ?thesis
    by auto
qed

text \<open>
  Claim C10. When a network name is configured and the listing of the networks fails,
  \<open>buildContainer\<close> returns the container just created with a nil error: after the
  creation and the listing no other operation is invoked, so the container is connected
  to no network. \<open>buildContainer\<close> never logs, so there is no warning. Once the
  container is created, \<open>buildContainer\<close> returns an error only when the networks were
  listed and a \<open>ConnectNetwork\<close> for this container, the last operation invoked, failed.
\<close>

theorem network_listing_failure_ignored:
  "(CreateContainer cl (createOptions cl j) (world s) = (Inr c, w) \<and> Network j \<noteq> [] \<and>
    FilteredListNetworks cl (Network j) w = (Inl listErr, w') \<longrightarrow>
      buildContainer cl j s =
        (Inr c, s\<lparr>world := w',
                  calls := calls s @ [CallCreateContainer (createOptions cl j),
                                      CallFilteredListNetworks (Network j)]\<rparr>)) \<and>
   messages (snd (buildContainer cl j s)) = messages s \<and>
   (CreateContainer cl (createOptions cl j) (world s) = (Inr c, w) \<and>
    fst (buildContainer cl j s) = Inl err \<longrightarrow>
      Network j \<noteq> [] \<and>
      (\<exists>networks w'. FilteredListNetworks cl (Network j) w = (Inr networks, w') \<and>
         (\<exists>network e. network \<in> set networks \<and> err = ErrorConnectingNetwork e \<and>
            last (calls (snd (buildContainer cl j s))) = CallConnectNetwork network (ID c))))"
proof (intro conjI impI)
  assume "CreateContainer cl (createOptions cl j) (world s) = (Inr c, w) \<and> Network j \<noteq> [] \<and>
    FilteredListNetworks cl (Network j) w = (Inl listErr, w')"
  then show "buildContainer cl j s =
        (Inr c, s\<lparr>world := w',
                  calls := calls s @ [CallCreateContainer (createOptions cl j),
                                      CallFilteredListNetworks (Network j)]\<rparr>)"
    by (elim conjE) (rule buildContainer_list_fails)
next
  show "messages (snd (buildContainer cl j s)) = messages s"
    by (rule buildContainer_messages)
next
  assume h: "CreateContainer cl (createOptions cl j) (world s) = (Inr c, w) \<and>
    fst (buildContainer cl j s) = Inl err"
  then have "Network j \<noteq> [] \<and>
      (\<exists>networks w'. FilteredListNetworks cl (Network j) w = (Inr networks, w') \<and>
         (\<exists>network e. network \<in> set networks \<and> err = ErrorConnectingNetwork e \<and>
            last (calls (snd (buildContainer cl j s))) = CallConnectNetwork network (ID c)))"
    by (elim conjE) (rule buildContainer_error)
  then show "Network j \<noteq> []"
    and "\<exists>networks w'. FilteredListNetworks cl (Network j) w = (Inr networks, w') \<and>
         (\<exists>network e. network \<in> set networks \<and> err = ErrorConnectingNetwork e \<and>
            last (calls (snd (buildContainer cl j s))) = CallConnectNetwork network (ID c))"
    by blast+
qed

theorem network_listing_failure_ignored_witness:
  "buildContainer scripted (job0\<lparr>Network := ''backend''\<rparr>)
     (state0 (script0\<lparr>networks_answer := Inl ''net down''\<rparr>)) =
     (Inr \<lparr>ID = ''c1'', State = \<lparr>State_Running = False, State_ExitCode = 0\<rparr>\<rparr>,
      (state0 (script0\<lparr>networks_answer := Inl ''net down''\<rparr>))
        \<lparr>calls := [CallCreateContainer (createOptions scripted (job0\<lparr>Network := ''backend''\<rparr>)),
                   CallFilteredListNetworks ''backend'']\<rparr>) \<and>
   (\<exists>e. fst (buildContainer scripted (job0\<lparr>Network := ''backend''\<rparr>)
               (state0 (script0\<lparr>connect_answer := (\<lambda>network. Some ''refused'')\<rparr>))) =
          Inl (ErrorConnectingNetwork e)) \<and>
   last (calls (snd (buildContainer scripted (job0\<lparr>Network := ''backend''\<rparr>)
               (state0 (script0\<lparr>connect_answer := (\<lambda>network. Some ''refused'')\<rparr>))))) =
     CallConnectNetwork ''n1'' ''c1''"
proof -
  let ?j = "job0\<lparr>Network := ''backend''\<rparr>"
  let ?c = "\<lparr>ID = ''c1'', State = \<lparr>State_Running = False, State_ExitCode = 0\<rparr>\<rparr>"
  let ?s = "state0 (script0\<lparr>networks_answer := Inl ''net down''\<rparr>)"
  let ?w = "script0\<lparr>networks_answer := Inl ''net down''\<rparr>"
  have "CreateContainer scripted (createOptions scripted ?j) (world ?s) = (Inr ?c, ?w) \<and>
      Network ?j \<noteq> [] \<and>
      FilteredListNetworks scripted (Network ?j) ?w = (Inl ''net down'', ?w)"
    by (simp add: fixture_defs)
  with network_listing_failure_ignored [of scripted ?j ?s ?c ?w "''net down''" ?w]
  have "buildContainer scripted ?j ?s =
        (Inr ?c, ?s\<lparr>world := ?w,
                   calls := calls ?s @ [CallCreateContainer (createOptions scripted ?j),
                                       CallFilteredListNetworks (Network ?j)]\<rparr>)"
    by blast
  then have 1: "buildContainer scripted ?j ?s =
        (Inr ?c, ?s\<lparr>calls := [CallCreateContainer (createOptions scripted ?j),
                               CallFilteredListNetworks ''backend'']\<rparr>)"
    by (simp add: state0_def)
  let ?t = "state0 (script0\<lparr>connect_answer := (\<lambda>network. Some ''refused'')\<rparr>)"
  let ?v = "script0\<lparr>connect_answer := (\<lambda>network. Some ''refused'')\<rparr>"
  have "CreateContainer scripted (createOptions scripted ?j) (world ?t) = (Inr ?c, ?v) \<and>
      fst (buildContainer scripted ?j ?t) = Inl (ErrorConnectingNetwork ''refused'')"
    by (simp add: fixture_defs buildContainer_def invoke_def createOptions_def)
  with network_listing_failure_ignored [of scripted ?j ?t ?c ?v "''net down''" ?v
      "ErrorConnectingNetwork ''refused''"]
  obtain networks w' network e where
    l: "FilteredListNetworks scripted (Network ?j) ?v = (Inr networks, w')"
    and n: "network \<in> set networks"
    and e: "ErrorConnectingNetwork ''refused'' = ErrorConnectingNetwork e"
    and c: "last (calls (snd (buildContainer scripted ?j ?t))) = CallConnectNetwork network (ID ?c)"
    and f: "fst (buildContainer scripted ?j ?t) = Inl (ErrorConnectingNetwork ''refused'')"
    by blast
  from l n have "network = ''n1''"
    by (auto simp: fixture_defs)
  with c have 3: "last (calls (snd (buildContainer scripted ?j ?t))) = CallConnectNetwork ''n1'' ''c1''"
    by simp
  from f have 2: "\<exists>e. fst (buildContainer scripted ?j ?t) = Inl (ErrorConnectingNetwork e)"
    by blast
  from 1 2 3 show ?thesis
    by (intro conjI)
qed

subsection \<open>The policy flags\<close>

lemma ParseBool_unparsable: "snd (ParseBool v) \<Longrightarrow> \<not> fst (ParseBool v)"
  by (simp add: ParseBool_def split: if_splits)

lemma ParseBool_false: "ParseBool ''false'' = (False, False)"
  by (simp add: ParseBool_def)

lemma ParseBool_empty: "ParseBool [] = (False, True)"
  by (simp add: ParseBool_def)

lemma pullImage_Pull: "pullImage cl (j\<lparr>Pull := v\<rparr>) s = pullImage cl j s"
  by (simp add: pullImage_def Let_def split: prod.splits option.splits sum.splits)

lemma searchLocalImage_Pull: "searchLocalImage cl (j\<lparr>Pull := v\<rparr>) s = searchLocalImage cl j s"
  by (simp add: searchLocalImage_def Let_def split: prod.splits option.splits sum.splits)

lemma resolveImage_Pull: "resolveImage cl (j\<lparr>Pull := v\<rparr>) pull s = resolveImage cl j pull s"
  by (simp add: resolveImage_def pullImage_Pull searchLocalImage_Pull cong: prod.case_cong if_cong)

lemma buildContainer_Pull: "buildContainer cl (j\<lparr>Pull := v\<rparr>) s = buildContainer cl j s"
  by (simp add: buildContainer_def createOptions_def Let_def split: prod.splits option.splits sum.splits)

lemma fetchLogs_Pull: "fetchLogs cl (j\<lparr>Pull := v\<rparr>) c t s = fetchLogs cl j c t s"
  by (simp add: fetchLogs_def logsOptions_def Let_def split: prod.splits option.splits sum.splits)

lemma deferredDelete_Pull: "deferredDelete cl (j\<lparr>Pull := v\<rparr>) c s = deferredDelete cl j c s"
  by (simp add: deferredDelete_def deleteContainer_def)

lemma acquireContainer_Pull:
  "fst (ParseBool v) = fst (ParseBool v') \<Longrightarrow>
   acquireContainer cl (j\<lparr>Pull := v\<rparr>) s = acquireContainer cl (j\<lparr>Pull := v'\<rparr>) s"
  by (simp add: acquireContainer_def resolveImage_Pull buildContainer_Pull
      cong: prod.case_cong sum.case_cong option.case_cong)

lemma Run_Pull:
  "fst (ParseBool v) = fst (ParseBool v') \<Longrightarrow> Run cl (j\<lparr>Pull := v\<rparr>) s = Run cl (j\<lparr>Pull := v'\<rparr>) s"
  by (simp add: Run_def Let_def acquireContainer_Pull [of v v'] fetchLogs_Pull deferredDelete_Pull
      split: prod.splits sum.splits option.splits)

lemma pullImage_Delete: "pullImage cl (j\<lparr>Delete := v\<rparr>) s = pullImage cl j s"
  by (simp add: pullImage_def Let_def split: prod.splits option.splits sum.splits)

lemma searchLocalImage_Delete: "searchLocalImage cl (j\<lparr>Delete := v\<rparr>) s = searchLocalImage cl j s"
  by (simp add: searchLocalImage_def Let_def split: prod.splits option.splits sum.splits)

lemma resolveImage_Delete: "resolveImage cl (j\<lparr>Delete := v\<rparr>) pull s = resolveImage cl j pull s"
  by (simp add: resolveImage_def pullImage_Delete searchLocalImage_Delete
      cong: prod.case_cong if_cong)

lemma buildContainer_Delete: "buildContainer cl (j\<lparr>Delete := v\<rparr>) s = buildContainer cl j s"
  by (simp add: buildContainer_def createOptions_def Let_def split: prod.splits option.splits sum.splits)

lemma acquireContainer_Delete: "acquireContainer cl (j\<lparr>Delete := v\<rparr>) s = acquireContainer cl j s"
  by (simp add: acquireContainer_def resolveImage_Delete buildContainer_Delete
      cong: prod.case_cong sum.case_cong option.case_cong)

lemma fetchLogs_Delete: "fetchLogs cl (j\<lparr>Delete := v\<rparr>) c t s = fetchLogs cl j c t s"
  by (simp add: fetchLogs_def logsOptions_def Let_def split: prod.splits option.splits sum.splits)

lemma deferredDelete_Delete:
  "fst (ParseBool v) = fst (ParseBool v') \<Longrightarrow>
   deferredDelete cl (j\<lparr>Delete := v\<rparr>) c s = deferredDelete cl (j\<lparr>Delete := v'\<rparr>) c s"
  by (simp add: deferredDelete_def deleteContainer_def)

lemma Run_Delete:
  "fst (ParseBool v) = fst (ParseBool v') \<Longrightarrow>
   Run cl (j\<lparr>Delete := v\<rparr>) s = Run cl (j\<lparr>Delete := v'\<rparr>) s"
  by (simp add: Run_def Let_def acquireContainer_Delete fetchLogs_Delete
        deferredDelete_Delete [of v v']
      split: prod.splits sum.splits option.splits)

text \<open>
  Claim C9. The error of \<open>strconv.ParseBool\<close> is dropped where the two flags are read.
  A value that does not parse, the empty string of an unset field among them, gives the
  flag false: the job then runs exactly as with \<open>"false"\<close>, for \<open>Pull\<close> as for \<open>Delete\<close>,
  and \<open>deleteContainer\<close> returns nil in the state it was called in, without invoking
  \<open>RemoveContainer\<close>.
\<close>

theorem unparsable_flag_is_false:
  "(snd (ParseBool v) \<longrightarrow>
      fst (ParseBool v) = False \<and>
      Run cl (j\<lparr>Pull := v\<rparr>) s = Run cl (j\<lparr>Pull := ''false''\<rparr>) s \<and>
      Run cl (j\<lparr>Delete := v\<rparr>) s = Run cl (j\<lparr>Delete := ''false''\<rparr>) s \<and>
      deleteContainer cl (j\<lparr>Delete := v\<rparr>) containerID s = (None, s)) \<and>
   ParseBool [] = (False, True)"
proof (intro conjI impI)
  assume "snd (ParseBool v)"
  then have f: "fst (ParseBool v) = fst (ParseBool ''false'')"
    by (simp add: ParseBool_unparsable ParseBool_false)
  then show "fst (ParseBool v) = False"
    by (simp add: ParseBool_false)
  from f show "Run cl (j\<lparr>Pull := v\<rparr>) s = Run cl (j\<lparr>Pull := ''false''\<rparr>) s"
    by (rule Run_Pull)
  from f show "Run cl (j\<lparr>Delete := v\<rparr>) s = Run cl (j\<lparr>Delete := ''false''\<rparr>) s"
    by (rule Run_Delete)
  from f show "deleteContainer cl (j\<lparr>Delete := v\<rparr>) containerID s = (None, s)"
    by (simp add: deleteContainer_def ParseBool_false)
next
  show "ParseBool [] = (False, True)"
    by (rule ParseBool_empty)
qed

theorem unparsable_flag_is_false_witness:
  "Run scripted (job0\<lparr>Pull := []\<rparr>) (state0 script0) =
     Run scripted (job0\<lparr>Pull := ''false''\<rparr>) (state0 script0) \<and>
   Run scripted (job0\<lparr>Delete := ''yes''\<rparr>) (state0 script0) =
     Run scripted (job0\<lparr>Delete := ''false''\<rparr>) (state0 script0) \<and>
   deleteContainer scripted (job0\<lparr>Delete := []\<rparr>) ''c1'' (state0 script0) =
     (None, state0 script0) \<and>
   calls (snd (deleteContainer scripted (job0\<lparr>Delete := ''true''\<rparr>) ''c1'' (state0 script0))) =
     [CallRemoveContainer ''c1'']"
proof -
  have e: "snd (ParseBool [])" and y: "snd (ParseBool ''yes'')"
    by (simp_all add: ParseBool_def)
  from unparsable_flag_is_false [of "[]" scripted job0 "state0 script0" "''c1''"] e
  have "Run scripted (job0\<lparr>Pull := []\<rparr>) (state0 script0) =
     Run scripted (job0\<lparr>Pull := ''false''\<rparr>) (state0 script0)"
    and "deleteContainer scripted (job0\<lparr>Delete := []\<rparr>) ''c1'' (state0 script0) =
     (None, state0 script0)"
    by blast+
  moreover
  from unparsable_flag_is_false [of "''yes''" scripted job0 "state0 script0" "''c1''"] y
  have "Run scripted (job0\<lparr>Delete := ''yes''\<rparr>) (state0 script0) =
     Run scripted (job0\<lparr>Delete := ''false''\<rparr>) (state0 script0)"
    by blast
  moreover
  have "calls (snd (deleteContainer scripted (job0\<lparr>Delete := ''true''\<rparr>) ''c1'' (state0 script0))) =
     [CallRemoveContainer ''c1'']"
    by (simp add: deleteContainer_def ParseBool_def fixture_defs invoke_def)
  ultimately show ?thesis
    by (intro conjI)
qed

section \<open>The running counter: proofs\<close>

lemma sint_succ:
  fixes w :: "32 word"
  assumes "sint w < 2 ^ 31 - 1"
  shows "sint (w + 1) = sint w + 1"
proof -
  have lo: "- (2 ^ 31) \<le> sint w"
    using sint_ge [of w] by simp
  have "sint (w + 1) = signed_take_bit 31 (sint w + 1)"
    by (simp add: sint_word_ariths)
  also have "\<dots> = sint w + 1"
    using lo assms by (intro signed_take_bit_int_eq_self) simp_all
  finally show ?thesis .
qed

lemma sint_pred:
  fixes w :: "32 word"
  assumes "- (2 ^ 31) < sint w"
  shows "sint (w + (- 1)) = sint w - 1"
proof -
  have hi: "sint w < 2 ^ 31"
    using sint_lt [of w] by simp
  have "sint (w + (- 1)) = signed_take_bit 31 (sint w + sint (- 1 :: 32 word))"
    by (simp only: sint_word_ariths) simp
  also have "\<dots> = signed_take_bit 31 (sint w - 1)"
    by simp
  also have "\<dots> = sint w - 1"
    using hi assms by (intro signed_take_bit_int_eq_self) simp_all
  finally show ?thesis .
qed

lemma Running_NotifyStart:
  "Running j < 2 ^ 31 - 1 \<Longrightarrow> Running (NotifyStart j) = Running j + 1"
  by (simp add: Running_def NotifyStart_def sint_succ)

lemma Running_NotifyStop:
  "- (2 ^ 31) < Running j \<Longrightarrow> Running (NotifyStop j) = Running j - 1"
  using sint_pred [of "running j"] by (simp add: Running_def NotifyStop_def)

lemma NotifyStop_NotifyStart: "Running (NotifyStop (NotifyStart j)) = Running j"
  by (simp add: Running_def NotifyStop_def NotifyStart_def)

lemma Running_jobWrapper_Run: "Running (jobWrapper_Run chain j) = Running j"
  by (simp add: jobWrapper_Run_def Context_Start_def Context_Stop_def Let_def
        NotifyStop_NotifyStart)

lemma running_notifyAll:
  "running (notifyAll ns j) =
     running j + of_nat (count_list ns Started) - of_nat (count_list ns Stopped)"
proof (induction ns arbitrary: j)
  case Nil
  then show ?case by (simp add: notifyAll_def)
next
  case (Cons n ns)
  have "notifyAll (n # ns) j = notifyAll ns (notify n j)"
    by (simp add: notifyAll_def)
  with Cons.IH [of "notify n j"] show ?case
    by (cases n) (simp_all add: NotifyStart_def NotifyStop_def)
qed

lemma balanced_restores:
  "count_list ns Started = count_list ns Stopped \<Longrightarrow> Running (notifyAll ns j) = Running j"
  by (simp add: Running_def running_notifyAll)

lemma paired_nonnegative:
  "paired pending ns \<Longrightarrow> int pending \<le> Running j \<Longrightarrow>
   Running j + int (count_list ns Started) < 2 ^ 31 \<Longrightarrow> k \<le> length ns \<Longrightarrow>
   0 \<le> Running (notifyAll (take k ns) j)"
proof (induction ns arbitrary: pending j k)
  case Nil
  then show ?case by (simp add: notifyAll_def)
next
  case (Cons n ns)
  show ?case
  proof (cases k)
    case 0
    with Cons.prems show ?thesis by (simp add: notifyAll_def)
  next
    case (Suc k')
    have step: "notifyAll (take k (n # ns)) j = notifyAll (take k' ns) (notify n j)"
      using Suc by (simp add: notifyAll_def)
    from Suc Cons.prems have k': "k' \<le> length ns"
      by simp
    show ?thesis
    proof (cases n)
      case Started
      from Cons.prems Started have r: "Running (NotifyStart j) = Running j + 1"
        by (intro Running_NotifyStart) simp
      from Cons.prems Started r
      have "paired (Suc pending) ns" "int (Suc pending) \<le> Running (NotifyStart j)"
        "Running (NotifyStart j) + int (count_list ns Started) < 2 ^ 31"
        by simp_all
      from Cons.IH [OF this k'] step Started show ?thesis
        by simp
    next
      case Stopped
      from Cons.prems Stopped have p: "0 < pending" "paired (pending - 1) ns"
        by simp_all
      from Cons.prems p have r: "Running (NotifyStop j) = Running j - 1"
        by (intro Running_NotifyStop) simp
      from Cons.prems Stopped r p
      have "int (pending - 1) \<le> Running (NotifyStop j)"
        "Running (NotifyStop j) + int (count_list ns Started) < 2 ^ 31"
        by simp_all
      from Cons.IH [OF p(2) this k'] step Stopped show ?thesis
        by simp
    qed
  qed
qed

text \<open>
  Claim C8, as amended. For any job and any value of its counter, \<open>NotifyStop\<close> after
  \<open>NotifyStart\<close> leaves \<open>Running\<close> unchanged, and so does a run through the wrapper,
  which notifies the start once and the stop once whatever the outcome of the chain; any
  sequence with as many stops as starts leaves it unchanged too. When every stop of a
  sequence is paired with a start before it, the counter never goes below 0 provided it
  starts at 0 or above and its first value plus the number of starts stays below
  \<open>2 ^ 31\<close>: the counter is an \<open>int32\<close>, and one more start wraps it.
\<close>

theorem running_counter:
  "Running (NotifyStop (NotifyStart j)) = Running j \<and>
   Running (jobWrapper_Run chain j) = Running j \<and>
   (count_list ns Started = count_list ns Stopped \<longrightarrow> Running (notifyAll ns j) = Running j) \<and>
   (paired 0 ns \<and> 0 \<le> Running j \<and> Running j + int (count_list ns Started) < 2 ^ 31 \<longrightarrow>
      (\<forall>k \<le> length ns. 0 \<le> Running (notifyAll (take k ns) j)))"
proof (intro conjI impI allI)
  show "Running (NotifyStop (NotifyStart j)) = Running j"
    by (rule NotifyStop_NotifyStart)
  show "Running (jobWrapper_Run chain j) = Running j"
    by (rule Running_jobWrapper_Run)
next
  assume "count_list ns Started = count_list ns Stopped"
  then show "Running (notifyAll ns j) = Running j"
    by (rule balanced_restores)
next
  fix k
  assume h: "paired 0 ns \<and> 0 \<le> Running j \<and> Running j + int (count_list ns Started) < 2 ^ 31"
    and k: "k \<le> length ns"
  from h have "paired 0 ns" "int 0 \<le> Running j"
    "Running j + int (count_list ns Started) < 2 ^ 31"
    by simp_all
  from paired_nonnegative [OF this k] show "0 \<le> Running (notifyAll (take k ns) j)" .
qed

theorem running_counter_witness:
  "Running (jobWrapper_Run (\<lambda>j. (Some ErrUnexpected, False)) (store0 0)) = 0 \<and>
   Running (notifyAll [Started, Started, Stopped, Stopped] (store0 0)) = 0 \<and>
   0 \<le> Running (notifyAll (take 3 [Started, Started, Stopped, Stopped]) (store0 0))"
proof -
  let ?ns = "[Started, Started, Stopped, Stopped]"
  note T = running_counter [of "store0 0" "\<lambda>j. (Some ErrUnexpected, False)" ?ns]
  have r0: "Running (store0 0) = 0"
    by (simp add: Running_def store0_def)
  from T have "Running (jobWrapper_Run (\<lambda>j. (Some ErrUnexpected, False)) (store0 0)) =
      Running (store0 0)"
    by blast
  with r0 have 1: "Running (jobWrapper_Run (\<lambda>j. (Some ErrUnexpected, False)) (store0 0)) = 0"
    by simp
  have "count_list ?ns Started = count_list ?ns Stopped"
    by simp
  with T have "Running (notifyAll ?ns (store0 0)) = Running (store0 0)"
    by blast
  with r0 have 2: "Running (notifyAll ?ns (store0 0)) = 0"
    by simp
  have "paired 0 ?ns \<and> 0 \<le> Running (store0 0) \<and>
      Running (store0 0) + int (count_list ?ns Started) < 2 ^ 31"
    by (simp add: r0)
  with T have all: "\<forall>k \<le> length ?ns. 0 \<le> Running (notifyAll (take k ?ns) (store0 0))"
    by blast
  have "3 \<le> length ?ns"
    by simp
  with all have 3: "0 \<le> Running (notifyAll (take 3 ?ns) (store0 0))"
    by blast
  from 1 2 3 show ?thesis
    by (intro conjI)
qed

text \<open>
  Claim C8 as stated fails for the counter at the largest \<open>int32\<close>: after one
  \<open>NotifyStart\<close>, with no \<open>NotifyStop\<close> left unpaired, \<open>Running\<close> is below 0.
\<close>

theorem running_counter_wraps:
  "paired 0 [Started] \<and>
   0 \<le> Running ((store0 0)\<lparr>running := 2147483647\<rparr>) \<and>
   Running (notifyAll [Started] ((store0 0)\<lparr>running := 2147483647\<rparr>)) = - 2147483648"
  by (simp add: notifyAll_def NotifyStart_def Running_def)

section \<open>The scheduler: proofs\<close>

text \<open>
  Claim C6. In every state of the scheduler, \<open>AddJob\<close> with a job whose schedule is empty
  returns \<open>ErrEmptySchedule\<close> and leaves the registry as it was, in length and in
  contents; only the logger has received the notice of the registration.
\<close>

theorem AddJob_empty_schedule:
  "GetSchedule (store s j) = [] \<longrightarrow>
     fst (AddJob parse j s) = Some ErrEmptySchedule \<and>
     Jobs (snd (AddJob parse j s)) = Jobs s \<and>
     length (Jobs (snd (AddJob parse j s))) = length (Jobs s) \<and>
     snd (AddJob parse j s) =
       s\<lparr>Logger := Logger s @
            [Noticef_New_job_registered (GetName (store s j)) (GetCommand (store s j)) []]\<rparr>"
  by (simp add: AddJob_def Let_def)

theorem AddJob_empty_schedule_witness:
  "fst (AddJob accept 7
         ((snd (AddJob accept 0 scheduler0))\<lparr>store := store0(7 := (store0 7)\<lparr>Schedule := []\<rparr>)\<rparr>)) =
     Some ErrEmptySchedule \<and>
   Jobs (snd (AddJob accept 7
         ((snd (AddJob accept 0 scheduler0))\<lparr>store := store0(7 := (store0 7)\<lparr>Schedule := []\<rparr>)\<rparr>))) =
     [0]"
proof -
  let ?s = "(snd (AddJob accept 0 scheduler0))\<lparr>store := store0(7 := (store0 7)\<lparr>Schedule := []\<rparr>)\<rparr>"
  have "GetSchedule (store ?s 7) = []"
    by (simp add: GetSchedule_def)
  with AddJob_empty_schedule [of ?s 7 accept]
  have "fst (AddJob accept 7 ?s) = Some ErrEmptySchedule"
    and "Jobs (snd (AddJob accept 7 ?s)) = Jobs ?s"
    by blast+
  moreover have "Jobs ?s = [0]"
    by (simp add: AddJob_def Let_def scheduler0_def NewScheduler_def store0_def GetSchedule_def
          accept_def)
  ultimately show ?thesis
    by simp
qed

text \<open>
  Claim C7. \<open>Start\<close> returns \<open>ErrAlreadyStarted\<close> whenever the scheduler is running,
  whether or not the registry is empty, and \<open>ErrEmptyScheduler\<close> when it is not running
  and the registry is empty; \<open>Stop\<close> returns \<open>ErrAlreadyStopped\<close> whenever the scheduler
  is not running, before it waits for anything, and so on a new scheduler. In each of
  these cases the scheduler is returned as it was: every error of \<open>Start\<close> and of \<open>Stop\<close>
  leaves the running flag and the registry unchanged.
\<close>

theorem lifecycle_errors:
  "(isRunning s \<longrightarrow> Start s = (Some ErrAlreadyStarted, s)) \<and>
   (\<not> isRunning s \<and> Jobs s = [] \<longrightarrow> Start s = (Some ErrEmptyScheduler, s)) \<and>
   (\<not> isRunning s \<longrightarrow> Stop s = Some (Some ErrAlreadyStopped, s)) \<and>
   Stop (NewScheduler mem) = Some (Some ErrAlreadyStopped, NewScheduler mem) \<and>
   (fst (Start s) = Some err \<longrightarrow>
      IsRunning (snd (Start s)) = IsRunning s \<and> Jobs (snd (Start s)) = Jobs s) \<and>
   (Stop s = Some (Some err, s') \<longrightarrow> IsRunning s' = IsRunning s \<and> Jobs s' = Jobs s)"
  by (auto simp: Start_def Stop_def NewScheduler_def IsRunning_def Let_def split: if_splits)

theorem lifecycle_errors_witness:
  "Start (scheduler0\<lparr>isRunning := True\<rparr>) = (Some ErrAlreadyStarted, scheduler0\<lparr>isRunning := True\<rparr>) \<and>
   fst (Start (snd (Start (snd (AddJob accept 0 scheduler0))))) = Some ErrAlreadyStarted \<and>
   Start scheduler0 = (Some ErrEmptyScheduler, scheduler0) \<and>
   Stop scheduler0 = Some (Some ErrAlreadyStopped, scheduler0) \<and>
   IsRunning (snd (Start scheduler0)) = IsRunning scheduler0"
proof -
  let ?r = "scheduler0\<lparr>isRunning := True\<rparr>"
  let ?t = "snd (Start (snd (AddJob accept 0 scheduler0)))"
  have run: "isRunning ?r" "isRunning ?t"
    by (simp_all add: Start_def AddJob_def Let_def scheduler0_def NewScheduler_def store0_def
          GetSchedule_def accept_def mergeMiddlewares_def)
  have idle: "\<not> isRunning scheduler0 \<and> Jobs scheduler0 = []" "\<not> isRunning scheduler0"
    by (simp_all add: scheduler0_def NewScheduler_def)
  from lifecycle_errors [of ?r] run(1)
  have 1: "Start ?r = (Some ErrAlreadyStarted, ?r)"
    by blast
  from lifecycle_errors [of ?t] run(2)
  have "Start ?t = (Some ErrAlreadyStarted, ?t)"
    by blast
  then have 2: "fst (Start ?t) = Some ErrAlreadyStarted"
    by simp
  from lifecycle_errors [of scheduler0] idle
  have 3: "Start scheduler0 = (Some ErrEmptyScheduler, scheduler0)"
    and 4: "Stop scheduler0 = Some (Some ErrAlreadyStopped, scheduler0)"
    by blast+
  from 3 have "fst (Start scheduler0) = Some ErrEmptyScheduler"
    by simp
  with lifecycle_errors [of scheduler0 _ ErrEmptyScheduler]
  have 5: "IsRunning (snd (Start scheduler0)) = IsRunning scheduler0"
    by blast
  from 1 2 3 4 5 show ?thesis
    by (intro conjI)
qed

subsection \<open>Merging the global middlewares\<close>


















end
